theory Spec2Isabelle
  imports Complex_Main "HOL-Library.Sublist"
begin

section \<open>Data model\<close>

text \<open>
  \<^verbatim>\<open>automation.py\<close>, lines 13-20: the outcome recorded for one row. The three optional
  fields default to \<^verbatim>\<open>None\<close>. Python strings are modelled as \<open>string\<close> (lists of
  8-bit characters, UTF-8 for anything beyond ASCII).
\<close>

record UpdateResult =
  employee_id :: string
  pos_id :: string
  success :: bool
  old_pos :: "string option"
  new_pos :: "string option"
  error :: "string option"

section \<open>Strings\<close>

text \<open>
  Python's \<^verbatim>\<open>needle in hay\<close> on strings: the needle occurs at the head of the
  haystack or somewhere in its tail.
\<close>

fun py_in :: "string \<Rightarrow> string \<Rightarrow> bool" where
  "py_in n [] = (n = [])"
| "py_in n (c # cs) = (prefix n (c # cs) \<or> py_in n cs)"

text \<open>\<^verbatim>\<open>str.lower()\<close> on the ASCII letters; every other character is left as it is.\<close>

definition lower_char :: "char \<Rightarrow> char" where
  "lower_char c =
     (case map_of (zip ''ABCDEFGHIJKLMNOPQRSTUVWXYZ'' ''abcdefghijklmnopqrstuvwxyz'') c of
        Some l \<Rightarrow> l
      | None \<Rightarrow> c)"

definition lower :: "string \<Rightarrow> string" where
  "lower s = map lower_char s"

text \<open>\<^verbatim>\<open>str(x)\<close> of an optional string: \<^verbatim>\<open>str(None)\<close> is the text \<^verbatim>\<open>None\<close>.\<close>

definition str_opt :: "string option \<Rightarrow> string" where
  "str_opt x = (case x of None \<Rightarrow> ''None'' | Some s \<Rightarrow> s)"

text \<open>
  \<^verbatim>\<open>str.strip()\<close>: the whitespace characters at both ends removed. A string here is
  the UTF-8 encoding of the Python string, so the characters that \<^verbatim>\<open>str.isspace\<close>
  accepts are one, two or three bytes long: the codes 9-13 and 28-32 (one byte); U+0085
  and U+00A0 (\<^verbatim>\<open>C2 85\<close>, \<^verbatim>\<open>C2 A0\<close>); U+1680 (\<^verbatim>\<open>E1 9A 80\<close>), U+2000 to U+200A, U+2028,
  U+2029, U+202F (\<^verbatim>\<open>E2 80\<close> and \<^verbatim>\<open>80\<close> to \<^verbatim>\<open>8A\<close>, \<^verbatim>\<open>A8\<close>, \<^verbatim>\<open>A9\<close>, \<^verbatim>\<open>AF\<close>), U+205F
  (\<^verbatim>\<open>E2 81 9F\<close>) and U+3000 (\<^verbatim>\<open>E3 80 80\<close>).
\<close>

definition is_space :: "char \<Rightarrow> bool" where
  "is_space c = (let n = (of_char c :: nat) in (9 \<le> n \<and> n \<le> 13) \<or> (28 \<le> n \<and> n \<le> 32))"

definition is_space2 :: "char \<Rightarrow> char \<Rightarrow> bool" where
  "is_space2 a b = (a = CHR 0xC2 \<and> (b = CHR 0x85 \<or> b = CHR 0xA0))"

definition is_space3 :: "char \<Rightarrow> char \<Rightarrow> char \<Rightarrow> bool" where
  "is_space3 a b c =
     ((a = CHR 0xE1 \<and> b = CHR 0x9A \<and> c = CHR 0x80)
      \<or> (a = CHR 0xE2 \<and> b = CHR 0x80
          \<and> (let n = (of_char c :: nat)
              in (128 \<le> n \<and> n \<le> 138) \<or> n = 168 \<or> n = 169 \<or> n = 175))
      \<or> (a = CHR 0xE2 \<and> b = CHR 0x81 \<and> c = CHR 0x9F)
      \<or> (a = CHR 0xE3 \<and> b = CHR 0x80 \<and> c = CHR 0x80))"

text \<open>Whitespace characters removed from the front of a string.\<close>

fun lstrip :: "string \<Rightarrow> string" where
  "lstrip (a # b # c # s) =
     (if is_space a then lstrip (b # c # s)
      else if is_space2 a b then lstrip (c # s)
      else if is_space3 a b c then lstrip s
      else a # b # c # s)"
| "lstrip [a, b] =
     (if is_space a then lstrip [b] else if is_space2 a b then [] else [a, b])"
| "lstrip [a] = (if is_space a then [] else [a])"
| "lstrip [] = []"

text \<open>
  The same from the end, on the reversed string: the last byte comes first, so the bytes
  of a character are met in reverse.
\<close>

fun rstrip_rev :: "string \<Rightarrow> string" where
  "rstrip_rev (c # b # a # s) =
     (if is_space c then rstrip_rev (b # a # s)
      else if is_space2 b c then rstrip_rev (a # s)
      else if is_space3 a b c then rstrip_rev s
      else c # b # a # s)"
| "rstrip_rev [c, b] =
     (if is_space c then rstrip_rev [b] else if is_space2 b c then [] else [c, b])"
| "rstrip_rev [c] = (if is_space c then [] else [c])"
| "rstrip_rev [] = []"

definition strip :: "string \<Rightarrow> string" where
  "strip s = rev (rstrip_rev (rev (lstrip s)))"

text \<open>\<^verbatim>\<open>str(n)\<close> of a non-negative integer, in decimal.\<close>

fun str_nat :: "nat \<Rightarrow> string" where
  "str_nat n =
     (if n < 10 then [''0123456789'' ! n]
      else str_nat (n div 10) @ [''0123456789'' ! (n mod 10)])"

section \<open>The failure partition of the \<^verbatim>\<open>run\<close> command\<close>

text \<open>
  \<^verbatim>\<open>cli.py\<close>, lines 128-137. The test of line 134, on the lower-cased error text:
  \<^verbatim>\<open>"no permission" in str(r.error).lower() or "not found" in str(r.error).lower()\<close>.
\<close>

definition is_permission_denied :: "UpdateResult \<Rightarrow> bool" where
  "is_permission_denied r =
     (py_in ''no permission'' (lower (str_opt (error r)))
      \<or> py_in ''not found'' (lower (str_opt (error r))))"

text \<open>
  The loop over \<^verbatim>\<open>results\<close>, carrying the two lists it appends to:
  \<^verbatim>\<open>permission_denied_users\<close> (employee ids) and \<^verbatim>\<open>other_failures\<close> (outcomes).
\<close>

fun partition_failures ::
  "UpdateResult list \<Rightarrow> string list \<Rightarrow> UpdateResult list \<Rightarrow> string list \<times> UpdateResult list"
where
  "partition_failures [] permission_denied_users other_failures =
     (permission_denied_users, other_failures)"
| "partition_failures (r # rs) permission_denied_users other_failures =
     (if \<not> success r then
        (if is_permission_denied r
         then partition_failures rs (permission_denied_users @ [employee_id r]) other_failures
         else partition_failures rs permission_denied_users (other_failures @ [r]))
      else partition_failures rs permission_denied_users other_failures)"

text \<open>
  Lines 129-130 start both lists empty; line 140 writes the permission-denied report only
  when the list is not empty. The report is the list of employee ids written, if any.
\<close>

definition permission_denied_report :: "UpdateResult list \<Rightarrow> string list option" where
  "permission_denied_report results =
     (let permission_denied_users = fst (partition_failures results [] [])
      in if permission_denied_users \<noteq> [] then Some permission_denied_users else None)"

text \<open>
  The reading of the specification's wording, kept apart from the code's test: an error text
  that matches \<^verbatim>\<open>not found\<close> or \<^verbatim>\<open>permission\<close>.
\<close>

definition spec_matches_denied :: "UpdateResult \<Rightarrow> bool" where
  "spec_matches_denied r =
     (py_in ''not found'' (lower (str_opt (error r)))
      \<or> py_in ''permission'' (lower (str_opt (error r))))"

section \<open>Configuration\<close>

text \<open>
  \<^verbatim>\<open>config.py\<close>, lines 12-42. The field \<^verbatim>\<open>default\<close> of \<^verbatim>\<open>Timeouts\<close> is named
  \<open>timeout_default\<close> here, and \<^verbatim>\<open>navigation\<close> \<open>timeout_navigation\<close>.
\<close>

record Timeouts =
  timeout_default :: int
  timeout_navigation :: int

record Selectors =
  username_input :: string
  password_input :: string
  login_submit :: string
  search_input :: string
  search_submit :: string
  employee_row :: string
  edit_button :: string
  pos_input :: string
  save_button :: string

record AppConfig =
  base_url :: string
  login_url :: string
  employee_search_url :: string
  selectors :: Selectors
  timeouts :: Timeouts
  retries :: int
  retry_backoff_seconds :: real

record Credentials =
  username :: string
  password :: string

text \<open>
  A configuration that gives only the required fields takes the defaults of lines 13-14
  and 34-36: timeouts of 15000 and 20000 ms, two retries, a backoff of two seconds.
\<close>

definition default_config :: "string \<Rightarrow> string \<Rightarrow> string \<Rightarrow> Selectors \<Rightarrow> AppConfig" where
  "default_config base login_u search_u sel =
     \<lparr>base_url = base, login_url = login_u, employee_search_url = search_u,
      selectors = sel,
      timeouts = \<lparr>timeout_default = 15000, timeout_navigation = 20000\<rparr>,
      retries = 2, retry_backoff_seconds = 2\<rparr>"

section \<open>The browser as an environment\<close>

text \<open>
  Every exception the code meets is an \<^verbatim>\<open>Exception\<close>: the \<^verbatim>\<open>ValueError\<close>s it raises
  itself and the errors of the browser layer. \<^verbatim>\<open>str(e)\<close> is the message.
\<close>

datatype exn = ValueError string | PageError string

fun exn_str :: "exn \<Rightarrow> string" where
  "exn_str (ValueError m) = m"
| "exn_str (PageError m) = m"

text \<open>
  Locators as the code builds them: \<^verbatim>\<open>page.locator(sel)\<close>, \<^verbatim>\<open>loc.first\<close> and
  \<^verbatim>\<open>loc.locator(sel)\<close>.
\<close>

datatype locator = Locator string | First locator | Sub locator string

text \<open>The three functions of \<^verbatim>\<open>automation.py\<close> that \<^verbatim>\<open>run_updates\<close> calls.\<close>

datatype fn = Fn_login | Fn_refresh_page | Fn_update_employee_pos string string

text \<open>
  One event per call that leaves the program: the browser calls with their arguments,
  \<^verbatim>\<open>asyncio.sleep\<close>, and \<open>Enter f\<close>, which records that the function \<open>f\<close> of this
  module was entered. Logging is left out: it neither raises nor touches the page.
\<close>

datatype event =
    Start_playwright
  | Stop_playwright
  | Launch bool "int option"
  | New_context
  | New_page
  | Goto string string
  | Fill string string
  | Click string
  | Wait_for_load_state string "int option"
  | Wait_for_timeout int
  | Wait_for_selector string int
  | Count locator
  | Inner_text locator
  | Locator_click locator
  | Input_value string
  | Screenshot string
  | Once_dialog_accept
  | Sleep real
  | Context_close
  | Browser_close
  | Enter fn

text \<open>
  The remote site and the browser are not in the repository. They are a parameter: an
  environment answers every call from the history of the calls made so far, either with
  an exception or with a value of the call's result type. Any deterministic browser and
  site is such a function.
\<close>

record env =
  env_act :: "event list \<Rightarrow> event \<Rightarrow> exn option"
  env_count :: "event list \<Rightarrow> event \<Rightarrow> exn + int"
  env_text :: "event list \<Rightarrow> event \<Rightarrow> exn + string"

text \<open>
  A computation reads the history and returns its result, an exception (\<open>Inl\<close>) or a
  value (\<open>Inr\<close>), with the events it added to the history, in order.
\<close>

type_synonym 'a io = "event list \<Rightarrow> (exn + 'a) \<times> event list"

definition ret :: "'a \<Rightarrow> 'a io" where
  "ret x h = (Inr x, [])"

definition raise :: "exn \<Rightarrow> 'a io" where
  "raise e h = (Inl e, [])"

definition bind :: "'a io \<Rightarrow> ('a \<Rightarrow> 'b io) \<Rightarrow> 'b io" where
  "bind m f h =
     (case m h of
        (Inl e, es) \<Rightarrow> (Inl e, es)
      | (Inr x, es) \<Rightarrow> (case f x (h @ es) of (r, es') \<Rightarrow> (r, es @ es')))"

definition thn :: "unit io \<Rightarrow> 'a io \<Rightarrow> 'a io" where
  "thn m k = bind m (\<lambda>_. k)"

text \<open>\<^verbatim>\<open>try: m except Exception as e: handler(e)\<close>.\<close>

definition try_except :: "'a io \<Rightarrow> (exn \<Rightarrow> 'a io) \<Rightarrow> 'a io" where
  "try_except m handler h =
     (case m h of
        (Inl e, es) \<Rightarrow> (case handler e (h @ es) of (r, es') \<Rightarrow> (r, es @ es'))
      | (Inr x, es) \<Rightarrow> (Inr x, es))"

text \<open>
  \<^verbatim>\<open>try: m finally: fin\<close>: \<open>fin\<close> runs whatever \<open>m\<close> did; an exception of \<open>fin\<close>
  replaces the outcome of \<open>m\<close>.
\<close>

definition try_finally :: "'a io \<Rightarrow> unit io \<Rightarrow> 'a io" where
  "try_finally m fin h =
     (case m h of (r, es) \<Rightarrow>
        (case fin (h @ es) of
           (Inl e, es') \<Rightarrow> (Inl e, es @ es')
         | (Inr _, es') \<Rightarrow> (r, es @ es')))"

text \<open>Statements in sequence.\<close>

fun seq :: "unit io list \<Rightarrow> unit io" where
  "seq [] = ret ()"
| "seq (m # ms) = thn m (seq ms)"

text \<open>The calls: one event each, answered by the environment.\<close>

definition call :: "env \<Rightarrow> event \<Rightarrow> unit io" where
  "call E ev h = ((case env_act E h ev of Some e \<Rightarrow> Inl e | None \<Rightarrow> Inr ()), [ev])"

definition call_count :: "env \<Rightarrow> event \<Rightarrow> int io" where
  "call_count E ev h = (env_count E h ev, [ev])"

definition call_text :: "env \<Rightarrow> event \<Rightarrow> string io" where
  "call_text E ev h = (env_text E h ev, [ev])"

definition enter :: "fn \<Rightarrow> unit io" where
  "enter f h = (Inr (), [Enter f])"

section \<open>Session driver\<close>

text \<open>\<^verbatim>\<open>automation.py\<close>, lines 23-28.\<close>

definition login :: "env \<Rightarrow> AppConfig \<Rightarrow> Credentials \<Rightarrow> unit io" where
  "login E cfg creds =
     seq [enter Fn_login,
          call E (Goto (login_url cfg) ''domcontentloaded''),
          call E (Fill (username_input (selectors cfg)) (username creds)),
          call E (Fill (password_input (selectors cfg)) (password creds)),
          call E (Click (login_submit (selectors cfg))),
          call E (Wait_for_load_state ''networkidle'' None)]"

text \<open>\<^verbatim>\<open>automation.py\<close>, lines 31-35.\<close>

definition refresh_page :: "env \<Rightarrow> AppConfig \<Rightarrow> unit io" where
  "refresh_page E cfg =
     seq [enter Fn_refresh_page,
          call E (Goto (employee_search_url cfg) ''domcontentloaded''),
          call E (Wait_for_timeout 2000)]"

section \<open>Row updater\<close>

text \<open>\<^verbatim>\<open>if step_delay_ms: await page.wait_for_timeout(step_delay_ms)\<close>.\<close>

definition step_delay :: "env \<Rightarrow> int \<Rightarrow> unit io" where
  "step_delay E step_delay_ms =
     (if step_delay_ms \<noteq> 0 then call E (Wait_for_timeout step_delay_ms) else ret ())"

text \<open>
  The selector of the "no data" text (lines 60 and 82), \<^verbatim>\<open>text=Kh\<close>...\<^verbatim>\<open>u\<close>, in UTF-8.
\<close>

definition no_data_selector :: string where
  "no_data_selector =
     ''text=Kh'' @ [CHR 0xC3, CHR 0xB4] @ ''ng c'' @ [CHR 0xC3, CHR 0xB3] @ '' d''
     @ [CHR 0xE1, CHR 0xBB, CHR 0xAF] @ '' li'' @ [CHR 0xE1, CHR 0xBB, CHR 0x87] @ ''u''"

text \<open>The messages of the three \<^verbatim>\<open>ValueError\<close>s (lines 64 and 84, 86, 108).\<close>

definition no_permission_msg :: "string \<Rightarrow> string" where
  "no_permission_msg eid = ''User not found or no permission to access employee_id: '' @ eid"

definition row_not_found_msg :: "string \<Rightarrow> nat \<Rightarrow> exn \<Rightarrow> string" where
  "row_not_found_msg eid max_retries e =
     ''Could not find employee row for '' @ eid @ '' after '' @ str_nat max_retries
     @ '' retries: '' @ exn_str e"

definition wrong_user_msg :: "string \<Rightarrow> string \<Rightarrow> string" where
  "wrong_user_msg eid sharing_key_value =
     ''Form shows wrong user: expected '' @ [CHR 0x27] @ eid @ [CHR 0x27] @ '', got ''
     @ [CHR 0x27] @ sharing_key_value @ [CHR 0x27]"

text \<open>Line 69: the XPath of the result row, with the employee id spliced in.\<close>

definition row_xpath :: "string \<Rightarrow> string" where
  "row_xpath eid = ''//tr[.//td[normalize-space()='' @ [CHR 0x27] @ eid @ [CHR 0x27] @ '']]''"

text \<open>
  Lines 41-66: open the search page, search for the employee, and fail when the "no data"
  text is on the page. A timeout of the wait for network idle (lines 54-57) is caught and
  ignored.
\<close>

definition search_employee :: "env \<Rightarrow> AppConfig \<Rightarrow> string \<Rightarrow> int \<Rightarrow> unit io" where
  "search_employee E cfg eid step_delay_ms =
     seq [call E (Goto (employee_search_url cfg) ''domcontentloaded''),
          step_delay E step_delay_ms,
          call E (Fill ''#sharing_key'' []),
          call E (Wait_for_timeout 500),
          call E (Fill ''#sharing_key'' eid),
          step_delay E step_delay_ms,
          call E (Click ''#doSearch''),
          try_except (call E (Wait_for_load_state ''networkidle'' (Some 20000))) (\<lambda>e. ret ()),
          bind (call_count E (Count (Locator no_data_selector))) (\<lambda>no_data_text.
            if no_data_text > 0 then
              thn (call E (Screenshot (''debug_no_data_'' @ eid @ ''.png'')))
                  (raise (ValueError (no_permission_msg eid)))
            else ret ()),
          step_delay E step_delay_ms]"

text \<open>
  Lines 73-91: the loop \<^verbatim>\<open>for retry in range(max_retries)\<close>, over the list of the values
  of \<^verbatim>\<open>retry\<close> still to come. A wait that returns leaves the loop (\<^verbatim>\<open>break\<close>). The
  handler of a failed wait raises on the last value of \<^verbatim>\<open>retry\<close>; before that it waits,
  clicks the search button again, waits, and goes on with the next value.
\<close>

fun wait_for_row :: "env \<Rightarrow> string \<Rightarrow> nat \<Rightarrow> nat list \<Rightarrow> unit io" where
  "wait_for_row E eid max_retries [] = ret ()"
| "wait_for_row E eid max_retries (retry # rest) =
     try_except (call E (Wait_for_selector (row_xpath eid) 10000)) (\<lambda>e.
       if retry = max_retries - 1 then
         thn (call E (Screenshot (''debug_search_'' @ eid @ ''_'' @ str_nat retry @ ''.png'')))
             (bind (call_count E (Count (Locator no_data_selector))) (\<lambda>no_data_check.
                if no_data_check > 0 then raise (ValueError (no_permission_msg eid))
                else raise (ValueError (row_not_found_msg eid max_retries e))))
       else
         seq [call E (Wait_for_timeout 2000),
              call E (Click ''#doSearch''),
              call E (Wait_for_timeout 3000),
              wait_for_row E eid max_retries rest])"

text \<open>
  Lines 93-103: the first row the XPath matches, its text (read for the log), a click on
  its radio button, then the edit button.
\<close>

definition radio_selector :: string where
  "radio_selector = ''input[name='' @ [CHR 0x27] @ ''sharing_partner_rad'' @ [CHR 0x27] @ '']''"

definition open_edit_form :: "env \<Rightarrow> string \<Rightarrow> int \<Rightarrow> unit io" where
  "open_edit_form E eid step_delay_ms =
     bind (call_text E (Inner_text (First (Locator (row_xpath eid))))) (\<lambda>row_text.
       seq [call E (Locator_click (Sub (First (Locator (row_xpath eid))) radio_selector)),
            step_delay E step_delay_ms,
            call E (Click ''#goEdit''),
            call E (Wait_for_load_state ''domcontentloaded'' None),
            step_delay E step_delay_ms])"

text \<open>
  Lines 41-103 together: search, wait for the row (\<^verbatim>\<open>max_retries = 3\<close>, line 72), select
  it and open the edit form.
\<close>

definition load_edit_form :: "env \<Rightarrow> AppConfig \<Rightarrow> string \<Rightarrow> int \<Rightarrow> unit io" where
  "load_edit_form E cfg eid step_delay_ms =
     thn (search_employee E cfg eid step_delay_ms)
    (thn (wait_for_row E eid 3 [0..<3])
         (open_edit_form E eid step_delay_ms))"

text \<open>Lines 106-108: the form must show the employee asked for.\<close>

definition verify_form :: "env \<Rightarrow> string \<Rightarrow> unit io" where
  "verify_form E eid =
     bind (call_text E (Input_value ''#sharing_key'')) (\<lambda>sharing_key_value.
       if strip sharing_key_value \<noteq> eid
       then raise (ValueError (wrong_user_msg eid sharing_key_value))
       else ret ())"

text \<open>Lines 112-118: read the old value of the target field, empty it, write the new one.\<close>

definition write_pos :: "env \<Rightarrow> AppConfig \<Rightarrow> string \<Rightarrow> int \<Rightarrow> string io" where
  "write_pos E cfg pos step_delay_ms =
     thn (call E (Wait_for_selector ''#info'' (timeout_default (timeouts cfg))))
       (bind (call_text E (Input_value ''#info'')) (\<lambda>old_value.
          thn (seq [call E (Fill ''#info'' []),
                    call E (Fill ''#info'' pos),
                    step_delay E step_delay_ms])
              (ret old_value)))"

text \<open>Lines 121-124: accept the confirmation dialog once, save.\<close>

definition save_form :: "env \<Rightarrow> int \<Rightarrow> unit io" where
  "save_form E step_delay_ms =
     seq [call E Once_dialog_accept,
          call E (Click ''#doEdit''),
          call E (Wait_for_load_state ''networkidle'' None),
          step_delay E step_delay_ms]"

text \<open>
  \<^verbatim>\<open>automation.py\<close>, lines 38-125, as the sequence of the parts above; the value
  returned is the old value of the target field.
\<close>

definition update_employee_pos ::
  "env \<Rightarrow> AppConfig \<Rightarrow> string \<Rightarrow> string \<Rightarrow> int \<Rightarrow> string io"
where
  "update_employee_pos E cfg eid pos step_delay_ms =
     thn (enter (Fn_update_employee_pos eid pos))
    (thn (load_edit_form E cfg eid step_delay_ms)
    (thn (verify_form E eid)
    (bind (write_pos E cfg pos step_delay_ms) (\<lambda>old_value.
     thn (save_form E step_delay_ms)
         (ret old_value)))))"

section \<open>Retry coordinator and batch runner\<close>

text \<open>
  Lines 146-165: the loop \<^verbatim>\<open>while True\<close> of one row, from a value of \<^verbatim>\<open>attempt\<close>.
  It ends with the outcome that the source appends to \<^verbatim>\<open>results\<close> before \<^verbatim>\<open>break\<close>.
  The handler catches what \<^verbatim>\<open>update_employee_pos\<close> raises; \<^verbatim>\<open>refresh_page\<close> and the
  sleep run inside the handler, so what they raise leaves the loop as an exception.
\<close>

function retry_row ::
  "env \<Rightarrow> AppConfig \<Rightarrow> bool \<Rightarrow> int \<Rightarrow> real \<Rightarrow> int \<Rightarrow> string \<Rightarrow> string \<Rightarrow> int \<Rightarrow> UpdateResult io"
where
  "retry_row E cfg dry_run n_retries backoff step_delay_ms eid pos attempt =
     try_except
       (if \<not> dry_run then
          bind (update_employee_pos E cfg eid pos step_delay_ms) (\<lambda>old_value.
            ret \<lparr>employee_id = eid, pos_id = pos, success = True,
                 old_pos = Some old_value, new_pos = Some pos, error = None\<rparr>)
        else
          ret \<lparr>employee_id = eid, pos_id = pos, success = True,
               old_pos = None, new_pos = Some pos, error = None\<rparr>)
       (\<lambda>e.
          if attempt + 1 > n_retries then
            ret \<lparr>employee_id = eid, pos_id = pos, success = False,
                 old_pos = None, new_pos = None, error = Some (exn_str e)\<rparr>
          else
            thn (refresh_page E cfg)
           (thn (call E (Sleep backoff))
                (retry_row E cfg dry_run n_retries backoff step_delay_ms eid pos (attempt + 1))))"
  by pat_completeness auto
termination
  by (relation "measure (\<lambda>(E, cfg, dry_run, n_retries, backoff, step_delay_ms, eid, pos, attempt).
                           nat (n_retries - attempt))") auto

text \<open>
  Lines 141-165: the loop over \<^verbatim>\<open>enumerate(rows)\<close>, from index \<open>i\<close>, with the outcomes
  collected so far. Every row but the first starts with \<^verbatim>\<open>refresh_page\<close>.
\<close>

fun process_rows ::
  "env \<Rightarrow> AppConfig \<Rightarrow> bool \<Rightarrow> int \<Rightarrow> real \<Rightarrow> int \<Rightarrow> nat \<Rightarrow> (string \<times> string) list
   \<Rightarrow> UpdateResult list \<Rightarrow> UpdateResult list io"
where
  "process_rows E cfg dry_run n_retries backoff step_delay_ms i [] results = ret results"
| "process_rows E cfg dry_run n_retries backoff step_delay_ms i ((eid, pos) # rows) results =
     thn (if i > 0 then refresh_page E cfg else ret ())
       (bind (retry_row E cfg dry_run n_retries backoff step_delay_ms eid pos 0) (\<lambda>r.
          process_rows E cfg dry_run n_retries backoff step_delay_ms (i + 1) rows (results @ [r])))"

text \<open>
  \<^verbatim>\<open>automation.py\<close>, lines 128-169. \<^verbatim>\<open>retries\<close> and \<^verbatim>\<open>retry_backoff_seconds\<close> default
  to the configuration's values. Playwright is started, the browser is launched, the
  context and the page are opened, and login and the rows run under
  \<^verbatim>\<open>try ... finally\<close>, which closes the context and the browser; leaving
  \<^verbatim>\<open>async with\<close> stops Playwright.
\<close>

definition run_updates ::
  "env \<Rightarrow> AppConfig \<Rightarrow> Credentials \<Rightarrow> (string \<times> string) list \<Rightarrow> bool \<Rightarrow> bool
   \<Rightarrow> int option \<Rightarrow> real option \<Rightarrow> int \<Rightarrow> int \<Rightarrow> UpdateResult list io"
where
  "run_updates E cfg creds rows headless dry_run retries_arg retry_backoff_arg
       step_delay_ms slowmo_ms =
     (let n_retries = (case retries_arg of None \<Rightarrow> retries cfg | Some n \<Rightarrow> n);
          backoff = (case retry_backoff_arg of None \<Rightarrow> retry_backoff_seconds cfg | Some b \<Rightarrow> b)
      in thn (call E Start_playwright)
           (try_finally
              (thn (call E (Launch headless (if slowmo_ms > 0 then Some slowmo_ms else None)))
              (thn (call E New_context)
              (thn (call E New_page)
                   (try_finally
                      (thn (login E cfg creds)
                           (process_rows E cfg dry_run n_retries backoff step_delay_ms 0 rows []))
                      (thn (call E Context_close) (call E Browser_close))))))
              (call E Stop_playwright)))"

section \<open>Reading outcomes and event lists\<close>

text \<open>The outcome that line 154 builds for a row in a dry run.\<close>

definition dry_result :: "string \<times> string \<Rightarrow> UpdateResult" where
  "dry_result row =
     \<lparr>employee_id = fst row, pos_id = snd row, success = True,
      old_pos = None, new_pos = Some (snd row), error = None\<rparr>"

text \<open>What holds of the outcome of a row, whichever of lines 152, 154 and 160 built it.\<close>

definition row_outcome :: "bool \<Rightarrow> string \<times> string \<Rightarrow> UpdateResult \<Rightarrow> bool" where
  "row_outcome dry_run row r =
     (employee_id r = fst row \<and> pos_id r = snd row
      \<and> (success r \<longleftrightarrow> error r = None)
      \<and> (success r \<longrightarrow> new_pos r = Some (snd row))
      \<and> (old_pos r \<noteq> None \<longrightarrow> success r \<and> \<not> dry_run)
      \<and> (dry_run \<longrightarrow> r = dry_result row))"

text \<open>
  The events that count: an attempt is an entry into \<^verbatim>\<open>update_employee_pos\<close>, a reset an
  entry into \<^verbatim>\<open>refresh_page\<close>, a backoff a call of \<^verbatim>\<open>asyncio.sleep\<close> (line 165, the
  only one, made once per retry).
\<close>

fun is_attempt :: "event \<Rightarrow> bool" where
  "is_attempt (Enter (Fn_update_employee_pos eid pos)) = True"
| "is_attempt ev = False"

fun is_reset :: "event \<Rightarrow> bool" where
  "is_reset (Enter Fn_refresh_page) = True"
| "is_reset ev = False"

fun is_backoff :: "event \<Rightarrow> bool" where
  "is_backoff (Sleep seconds) = True"
| "is_backoff ev = False"

definition count_attempts :: "event list \<Rightarrow> nat" where
  "count_attempts es = length (filter is_attempt es)"

definition count_resets :: "event list \<Rightarrow> nat" where
  "count_resets es = length (filter is_reset es)"

definition count_backoffs :: "event list \<Rightarrow> nat" where
  "count_backoffs es = length (filter is_backoff es)"

definition page_call :: "event \<Rightarrow> bool" where
  "page_call ev = (\<not> is_attempt ev \<and> \<not> is_reset ev \<and> \<not> is_backoff ev)"

text \<open>The events of an event list that come before its last attempt.\<close>

definition before_last_attempt :: "event list \<Rightarrow> event list" where
  "before_last_attempt es = rev (tl (dropWhile (\<lambda>ev. \<not> is_attempt ev) (rev es)))"

text \<open>
  The calls that wait for, read or write the target field \<^verbatim>\<open>#info\<close>, and the click that
  saves the form (lines 113-116 and 122).
\<close>

fun target_field_event :: "event \<Rightarrow> bool" where
  "target_field_event (Fill s v) = (s = ''#info'')"
| "target_field_event (Input_value s) = (s = ''#info'')"
| "target_field_event (Wait_for_selector s t) = (s = ''#info'')"
| "target_field_event (Click s) = (s = ''#doEdit'')"
| "target_field_event ev = False"

text \<open>Every event a computation adds, from any history, satisfies \<open>P\<close>.\<close>

definition emits :: "(event \<Rightarrow> bool) \<Rightarrow> 'a io \<Rightarrow> bool" where
  "emits P m = (\<forall>h. list_all P (snd (m h)))"

text \<open>
  The calls of lines 133-136, before login: Playwright started, the browser launched, a
  context and a page opened.
\<close>

definition launch_events :: "bool \<Rightarrow> int \<Rightarrow> event list" where
  "launch_events headless slowmo =
     [Start_playwright, Launch headless (if slowmo > 0 then Some slowmo else None),
      New_context, New_page]"

text \<open>
  The calls of the loop of lines 73-91 when all three waits for the row fail: three
  waits, and between them a wait of two seconds, a new click on the search button and a
  wait of three seconds.
\<close>

definition poll_events :: "string \<Rightarrow> event list" where
  "poll_events eid =
     [Wait_for_selector (row_xpath eid) 10000,
      Wait_for_timeout 2000, Click ''#doSearch'', Wait_for_timeout 3000,
      Wait_for_selector (row_xpath eid) 10000,
      Wait_for_timeout 2000, Click ''#doSearch'', Wait_for_timeout 3000,
      Wait_for_selector (row_xpath eid) 10000]"

text \<open>
  What the statements below assume of the site: the browser calls around the loop (start,
  launch, new context, new page, the two closes, stop) never raise; and \<^verbatim>\<open>refresh_page\<close>
  and the backoff sleep never raise.
\<close>

definition browser_ok :: "env \<Rightarrow> bool" where
  "browser_ok E =
     (\<forall>h. env_act E h Start_playwright = None
          \<and> (\<forall>headless slowmo. env_act E h (Launch headless slowmo) = None)
          \<and> env_act E h New_context = None \<and> env_act E h New_page = None
          \<and> env_act E h Context_close = None \<and> env_act E h Browser_close = None
          \<and> env_act E h Stop_playwright = None)"

definition resets_ok :: "env \<Rightarrow> AppConfig \<Rightarrow> bool" where
  "resets_ok E cfg =
     ((\<forall>h. fst (refresh_page E cfg h) = Inr ()) \<and> (\<forall>h seconds. env_act E h (Sleep seconds) = None))"

section \<open>Example inputs\<close>

definition example_selectors :: Selectors where
  "example_selectors =
     \<lparr>username_input = ''#username'', password_input = ''#password'',
      login_submit = ''#login'', search_input = ''#sharing_key'',
      search_submit = ''#doSearch'', employee_row = ''tr'', edit_button = ''#goEdit'',
      pos_input = ''#info'', save_button = ''#doEdit''\<rparr>"

definition example_config :: AppConfig where
  "example_config =
     default_config ''https://admin.example'' ''https://admin.example/login''
       ''https://admin.example/search'' example_selectors"

definition example_creds :: Credentials where
  "example_creds = \<lparr>username = ''admin'', password = ''secret''\<rparr>"

text \<open>
  A site where every call returns, no "no data" text shows, and the edit form always shows
  employee \<^verbatim>\<open>E1\<close> with the value \<^verbatim>\<open>P0\<close> in its fields: an update of \<^verbatim>\<open>E1\<close> succeeds, an
  update of anyone else fails at the check of line 107.
\<close>

definition ok_env :: env where
  "ok_env =
     \<lparr>env_act = (\<lambda>h ev. None),
      env_count = (\<lambda>h ev. Inr 0),
      env_text = (\<lambda>h ev. Inr (if ev = Input_value ''#sharing_key'' then ''E1'' else ''P0''))\<rparr>"

definition example_rows :: "(string \<times> string) list" where
  "example_rows = [(''E1'', ''P1''), (''E2'', ''P2'')]"

text \<open>
  A failed outcome the code can produce: the row-not-found error of line 86 for an
  employee id that contains the word \<^verbatim>\<open>permission\<close>.
\<close>

definition permission_example :: UpdateResult where
  "permission_example =
     \<lparr>employee_id = ''permission01'', pos_id = ''P1'', success = False,
      old_pos = None, new_pos = None,
      error = Some (row_not_found_msg ''permission01'' 3 (PageError ''Timeout 10000ms exceeded.''))\<rparr>"

definition denied_example :: UpdateResult where
  "denied_example =
     \<lparr>employee_id = ''E2'', pos_id = ''P2'', success = False,
      old_pos = None, new_pos = None, error = Some (no_permission_msg ''E2'')\<rparr>"

definition succeeded_example :: UpdateResult where
  "succeeded_example =
     \<lparr>employee_id = ''E3'', pos_id = ''P3'', success = True,
      old_pos = Some ''P0'', new_pos = Some ''P3'', error = None\<rparr>"


text \<open>
  A site that shows the "no data" text for every search: every update fails with the
  error of line 64.
\<close>

definition no_data_env :: env where
  "no_data_env =
     \<lparr>env_act = (\<lambda>h ev. None),
      env_count = (\<lambda>h ev. Inr 1),
      env_text = (\<lambda>h ev. Inr [])\<rparr>"

text \<open>The run for one row on that site with \<^verbatim>\<open>retries=-1\<close>.\<close>

definition negative_retries_run :: "(exn + UpdateResult list) \<times> event list" where
  "negative_retries_run =
     run_updates no_data_env example_config example_creds [(''E1'', ''P1'')]
       True False (Some (- 1)) None 0 0 []"

text \<open>
  A site whose search page stops loading once login is done: every navigation to it times
  out. \<^verbatim>\<open>update_employee_pos\<close> fails at its first call (line 41), and so does
  \<^verbatim>\<open>refresh_page\<close> (line 34).
\<close>

definition stuck_env :: env where
  "stuck_env =
     \<lparr>env_act = (\<lambda>h ev. if ev = Goto (employee_search_url example_config) ''domcontentloaded''
                        then Some (PageError ''Timeout 30000ms exceeded.'') else None),
      env_count = (\<lambda>h ev. Inr 0),
      env_text = (\<lambda>h ev. Inr [])\<rparr>"

text \<open>The run for one row on that site, with the default budget.\<close>

definition stuck_run :: "(exn + UpdateResult list) \<times> event list" where
  "stuck_run =
     run_updates stuck_env example_config example_creds [(''E1'', ''P1'')]
       True False None None 0 0 []"

text \<open>
  The dry run over the two example rows on that site: the first row needs no reset, the
  second starts with \<^verbatim>\<open>refresh_page\<close> (line 144).
\<close>

definition stuck_second_row_run :: "(exn + UpdateResult list) \<times> event list" where
  "stuck_second_row_run =
     run_updates stuck_env example_config example_creds example_rows
       True True None None 0 0 []"

text \<open>A site where the click on the login button times out.\<close>

definition login_fail_env :: env where
  "login_fail_env =
     \<lparr>env_act = (\<lambda>h ev. if ev = Click ''#login'' then Some (PageError ''Timeout 30000ms exceeded.'')
                        else None),
      env_count = (\<lambda>h ev. Inr 0),
      env_text = (\<lambda>h ev. Inr [])\<rparr>"

text \<open>A site that shows neither the "no data" text nor a row for \<^verbatim>\<open>E1\<close>.\<close>

definition no_row_env :: env where
  "no_row_env =
     \<lparr>env_act = (\<lambda>h ev. if ev = Wait_for_selector (row_xpath ''E1'') 10000
                        then Some (PageError ''Timeout 10000ms exceeded.'') else None),
      env_count = (\<lambda>h ev. Inr 0),
      env_text = (\<lambda>h ev. Inr [])\<rparr>"

section \<open>The result list as a page\<close>

text \<open>
  The page the browser shows is not part of the repository. To say which row the calls of
  lines 75-97 act on, a result list is taken as the list of its rows; a row has the cell
  of the login name (the column that the comment of line 68 names), its other cells, and
  one radio button. The locators are read as Playwright and
  XPath 1.0 define them: \<^verbatim>\<open>normalize-space()\<close> strips leading and trailing XML whitespace
  (space, tab, line feed, carriage return) and turns every run of it into one space; the
  XPath of line 69, built for a text without an apostrophe, selects in document order the
  rows with a cell (\<^verbatim>\<open>td\<close>) whose normalized text equals that text; \<^verbatim>\<open>.first\<close> keeps the
  first element selected; a click or a read on a locator needs exactly one element.
\<close>

record result_row =
  login_name :: string
  other_cells :: "string list"

type_synonym table = "result_row list"

definition cells :: "result_row \<Rightarrow> string list" where
  "cells r = login_name r # other_cells r"

definition xml_space :: "char \<Rightarrow> bool" where
  "xml_space c = (c = CHR 0x20 \<or> c = CHR 0x09 \<or> c = CHR 0x0A \<or> c = CHR 0x0D)"

fun squeeze :: "string \<Rightarrow> string" where
  "squeeze [] = []"
| "squeeze [c] = [if xml_space c then CHR 0x20 else c]"
| "squeeze (c # d # cs) =
     (if xml_space c \<and> xml_space d then squeeze (d # cs)
      else (if xml_space c then CHR 0x20 else c) # squeeze (d # cs))"

definition normalize_space :: "string \<Rightarrow> string" where
  "normalize_space s = squeeze (rev (dropWhile xml_space (rev (dropWhile xml_space s))))"


text \<open>
  The rows a locator denotes. A selector denotes a row when it is the XPath of line 69
  built for the normalized text of one of the row's cells, and that text has no
  apostrophe: with an apostrophe in it, the spliced string is not that XPath any more,
  and no row is taken to match. A selector inside a row locator (the radio button)
  denotes that row.
\<close>

fun resolve :: "table \<Rightarrow> locator \<Rightarrow> nat list" where
  "resolve tbl (Locator s) =
     filter (\<lambda>i. list_ex (\<lambda>c. CHR 0x27 \<notin> set (normalize_space c)
                               \<and> row_xpath (normalize_space c) = s) (cells (tbl ! i)))
       [0..<length tbl]"
| "resolve tbl (First l) = take 1 (resolve tbl l)"
| "resolve tbl (Sub l s) = resolve tbl l"


text \<open>The rows whose radio button the clicks of an event list hit.\<close>

fun clicked :: "table \<Rightarrow> event \<Rightarrow> nat list" where
  "clicked tbl (Locator_click l) = resolve tbl l"
| "clicked tbl ev = []"

definition selected_rows :: "table \<Rightarrow> event list \<Rightarrow> nat list" where
  "selected_rows tbl es = concat (map (clicked tbl) es)"



section \<open>Properties of the string functions\<close>

lemma py_in_sublist: "py_in n h \<longleftrightarrow> sublist n h"
  by (induction h) (simp_all add: sublist_Cons_right)

lemma py_in_iff: "py_in n h \<longleftrightarrow> (\<exists>ps ss. h = ps @ n @ ss)"
  by (simp add: py_in_sublist sublist_def)

text \<open>
  \<^verbatim>\<open>strip\<close> on ASCII and on other whitespace: tabs and newlines, a trailing no-break
  space (U+00A0), an ideographic space (U+3000) in front and an em space (U+2003) behind;
  whitespace inside the string stays.
\<close>

lemma strip_examples:
  "strip ([CHR 0x20, CHR 0x09] @ ''E1 x'' @ [CHR 0x20, CHR 0x0A]) = ''E1 x''"
  "strip (''E1'' @ [CHR 0xC2, CHR 0xA0]) = ''E1''"
  "strip ([CHR 0xE3, CHR 0x80, CHR 0x80] @ ''E1'' @ [CHR 0xE2, CHR 0x80, CHR 0x83]) = ''E1''"
  "strip ''E1'' = ''E1''"
  by code_simp+

section \<open>Properties of the failure partition\<close>

lemma partition_failures_acc:
  "partition_failures rs ds os =
     (ds @ map employee_id (filter (\<lambda>r. \<not> success r \<and> is_permission_denied r) rs),
      os @ filter (\<lambda>r. \<not> success r \<and> \<not> is_permission_denied r) rs)"
  by (induction rs arbitrary: ds os) simp_all

text \<open>
  Claim C10, as the code has it. The failed outcomes are split by the test of line 134:
  the employee ids of exactly those failed outcomes whose lower-cased error text contains
  \<^verbatim>\<open>no permission\<close> or \<^verbatim>\<open>not found\<close> go, in order, to the permission-denied list, and
  exactly the other failed outcomes go, in order, to the list of other failures; a
  successful outcome goes to neither. The permission-denied report is written from the
  first list when it is not empty.
\<close>

theorem partition_failures_routes:
  "partition_failures results [] [] =
     (map employee_id (filter (\<lambda>r. \<not> success r \<and> is_permission_denied r) results),
      filter (\<lambda>r. \<not> success r \<and> \<not> is_permission_denied r) results)
   \<and> permission_denied_report results =
       (if filter (\<lambda>r. \<not> success r \<and> is_permission_denied r) results = [] then None
        else Some (map employee_id
                     (filter (\<lambda>r. \<not> success r \<and> is_permission_denied r) results)))"
  by (simp add: partition_failures_acc permission_denied_report_def)


text \<open>
  The partition on three outcomes: the failure of line 64 goes to the permission-denied
  list, the row-not-found failure to the other failures, the success to neither.
\<close>

theorem partition_failures_routes_witness:
  "partition_failures [permission_example, denied_example, succeeded_example] [] [] =
     ([''E2''], [permission_example])
   \<and> permission_denied_report [permission_example, denied_example, succeeded_example]
       = Some [''E2'']"
proof -
  have d: "filter (\<lambda>r. \<not> success r \<and> is_permission_denied r)
             [permission_example, denied_example, succeeded_example] = [denied_example]"
    by code_simp
  have p: "filter (\<lambda>r. \<not> success r \<and> \<not> is_permission_denied r)
             [permission_example, denied_example, succeeded_example] = [permission_example]"
    by code_simp
  have e: "employee_id denied_example = ''E2''"
    by (simp add: denied_example_def)
  from partition_failures_routes [of "[permission_example, denied_example, succeeded_example]"]
  show ?thesis
    unfolding d p by (simp add: e)
qed

text \<open>
  Claim C10 as the specification words it fails: this failed outcome's error text
  contains \<^verbatim>\<open>permission\<close>, and the code keeps it out of the permission-denied list.
\<close>

theorem partition_failures_permission_counterexample:
  "\<not> success permission_example \<and> spec_matches_denied permission_example
   \<and> partition_failures [permission_example] [] [] = ([], [permission_example])"
  by code_simp


section \<open>Reading the result of a composed computation\<close>

lemma ret_apply [simp]: "ret x h = (Inr x, [])"
  by (simp add: ret_def)

lemma raise_apply [simp]: "raise e h = (Inl e, [])"
  by (simp add: raise_def)

lemma enter_apply [simp]: "enter f h = (Inr (), [Enter f])"
  by (simp add: enter_def)

lemma bind_cases:
  assumes "bind m f h = (r, es)"
  obtains (raised) e where "m h = (Inl e, es)" "r = Inl e"
  | (returned) x es1 es2 where "m h = (Inr x, es1)" "f x (h @ es1) = (r, es2)" "es = es1 @ es2"
  using assms by (auto simp: bind_def split: prod.splits sum.splits)

lemma thn_cases:
  assumes "thn m k h = (r, es)"
  obtains (raised) e where "m h = (Inl e, es)" "r = Inl e"
  | (returned) es1 es2 where "m h = (Inr (), es1)" "k (h @ es1) = (r, es2)" "es = es1 @ es2"
  using assms unfolding thn_def by (erule bind_cases) auto

lemma try_except_cases:
  assumes "try_except m handler h = (r, es)"
  obtains (returned) x where "m h = (Inr x, es)" "r = Inr x"
  | (handled) e es1 es2 where "m h = (Inl e, es1)" "handler e (h @ es1) = (r, es2)" "es = es1 @ es2"
  using assms by (auto simp: try_except_def split: prod.splits sum.splits)

lemma try_finally_cases:
  assumes "try_finally m fin h = (r, es)"
  obtains (fin_raised) e r' es1 es2 where "m h = (r', es1)" "fin (h @ es1) = (Inl e, es2)"
      "r = Inl e" "es = es1 @ es2"
  | (fin_returned) es1 es2 where "m h = (r, es1)" "fin (h @ es1) = (Inr (), es2)" "es = es1 @ es2"
  using assms by (auto simp: try_finally_def split: prod.splits sum.splits)

section \<open>Events of the parts\<close>

lemma emitsD: "emits P m \<Longrightarrow> m h = (r, es) \<Longrightarrow> list_all P es"
  by (auto simp: emits_def dest: spec [of _ h])

lemma emits_ret [simp]: "emits P (ret x)"
  by (simp add: emits_def)

lemma emits_silent [simp]: "emits P (\<lambda>h. (r, []))"
  by (simp add: emits_def)

lemma emits_raise [simp]: "emits P (raise e)"
  by (simp add: emits_def)

lemma emits_enter [simp]: "emits P (enter f) \<longleftrightarrow> P (Enter f)"
  by (simp add: emits_def)

lemma emits_call [simp]: "emits P (call E ev) \<longleftrightarrow> P ev"
  by (simp add: emits_def call_def)

lemma emits_call_count [simp]: "emits P (call_count E ev) \<longleftrightarrow> P ev"
  by (simp add: emits_def call_count_def)

lemma emits_call_text [simp]: "emits P (call_text E ev) \<longleftrightarrow> P ev"
  by (simp add: emits_def call_text_def)

lemma emits_bind: "emits P m \<Longrightarrow> (\<And>x. emits P (f x)) \<Longrightarrow> emits P (bind m f)"
  unfolding emits_def
proof
  fix h
  assume m: "\<forall>h. list_all P (snd (m h))" and f: "\<And>x. \<forall>h. list_all P (snd (f x h))"
  obtain r es where b: "bind m f h = (r, es)" by (cases "bind m f h")
  then have "list_all P es"
  proof (cases rule: bind_cases)
    case (raised e)
    with m [rule_format, of h] show ?thesis by simp
  next
    case (returned x es1 es2)
    with m [rule_format, of h] f [of x, rule_format, of "h @ es1"] show ?thesis by simp
  qed
  with b show "list_all P (snd (bind m f h))" by simp
qed

lemma emits_thn: "emits P m \<Longrightarrow> emits P k \<Longrightarrow> emits P (thn m k)"
  by (simp add: thn_def emits_bind)

lemma emits_try_except:
  "emits P m \<Longrightarrow> (\<And>e. emits P (handler e)) \<Longrightarrow> emits P (try_except m handler)"
  unfolding emits_def
proof
  fix h
  assume m: "\<forall>h. list_all P (snd (m h))" and f: "\<And>e. \<forall>h. list_all P (snd (handler e h))"
  obtain r es where b: "try_except m handler h = (r, es)" by (cases "try_except m handler h")
  then have "list_all P es"
  proof (cases rule: try_except_cases)
    case (returned x)
    with m [rule_format, of h] show ?thesis by simp
  next
    case (handled e es1 es2)
    with m [rule_format, of h] f [of e, rule_format, of "h @ es1"] show ?thesis by simp
  qed
  with b show "list_all P (snd (try_except m handler h))" by simp
qed

lemma emits_try_finally: "emits P m \<Longrightarrow> emits P fin \<Longrightarrow> emits P (try_finally m fin)"
  unfolding emits_def
proof
  fix h
  assume m: "\<forall>h. list_all P (snd (m h))" and f: "\<forall>h. list_all P (snd (fin h))"
  obtain r es where b: "try_finally m fin h = (r, es)" by (cases "try_finally m fin h")
  then have "list_all P es"
  proof (cases rule: try_finally_cases)
    case (fin_raised e r' es1 es2)
    with m [rule_format, of h] f [rule_format, of "h @ es1"] show ?thesis by simp
  next
    case (fin_returned es1 es2)
    with m [rule_format, of h] f [rule_format, of "h @ es1"] show ?thesis by simp
  qed
  with b show "list_all P (snd (try_finally m fin h))" by simp
qed

lemma emits_seq: "list_all (emits P) ms \<Longrightarrow> emits P (seq ms)"
  by (induction ms) (simp_all add: emits_thn)

lemma emits_step_delay [simp]: "emits P (step_delay E sd) \<longleftrightarrow> (sd \<noteq> 0 \<longrightarrow> P (Wait_for_timeout sd))"
  by (simp add: step_delay_def)

lemma emits_bind_all: "emits P m \<Longrightarrow> \<forall>x. emits P (f x) \<Longrightarrow> emits P (bind m f)"
  by (simp add: emits_bind)

lemma emits_try_except_all:
  "emits P m \<Longrightarrow> \<forall>e. emits P (handler e) \<Longrightarrow> emits P (try_except m handler)"
  by (simp add: emits_try_except)

lemmas emits_rules = emits_bind_all emits_thn emits_try_except_all emits_try_finally emits_seq

lemma page_call_simps [simp]:
  "page_call (Goto u w)" "page_call (Fill s v)" "page_call (Click s)"
  "page_call (Wait_for_load_state st t)" "page_call (Wait_for_timeout ms)"
  "page_call (Wait_for_selector s ms)" "page_call (Count l)" "page_call (Inner_text l)"
  "page_call (Locator_click l)" "page_call (Input_value s)" "page_call (Screenshot p)"
  "page_call Once_dialog_accept" "page_call Start_playwright" "page_call Stop_playwright"
  "page_call (Launch hl sm)" "page_call New_context" "page_call New_page"
  "page_call Context_close" "page_call Browser_close" "page_call (Enter Fn_login)"
  by (simp_all add: page_call_def)

lemma emits_search_employee: "emits page_call (search_employee E cfg eid sd)"
  by (simp add: search_employee_def emits_rules)

lemma emits_wait_for_row: "emits page_call (wait_for_row E eid m rs)"
  by (induction rs) (simp_all add: emits_rules)

lemma emits_open_edit_form: "emits page_call (open_edit_form E eid sd)"
  by (simp add: open_edit_form_def emits_rules)

lemma emits_load_edit_form: "emits page_call (load_edit_form E cfg eid sd)"
  by (simp add: load_edit_form_def emits_rules emits_search_employee emits_wait_for_row
      emits_open_edit_form)

lemma emits_verify_form: "emits page_call (verify_form E eid)"
  by (simp add: verify_form_def emits_rules)

lemma emits_write_pos: "emits page_call (write_pos E cfg pos sd)"
  by (simp add: write_pos_def emits_rules)

lemma emits_save_form: "emits page_call (save_form E sd)"
  by (simp add: save_form_def emits_rules)

lemma emits_login: "emits page_call (login E cfg creds)"
  by (simp add: login_def emits_rules)

text \<open>The events of one call of the row updater: the entry, then page calls only.\<close>

lemma update_employee_pos_events:
  assumes "update_employee_pos E cfg eid pos sd h = (r, es)"
  obtains rest where "es = Enter (Fn_update_employee_pos eid pos) # rest" "list_all page_call rest"
proof -
  have body: "emits page_call
     (thn (load_edit_form E cfg eid sd)
     (thn (verify_form E eid)
     (bind (write_pos E cfg pos sd) (\<lambda>old_value. thn (save_form E sd) (ret old_value)))))"
    by (simp add: emits_rules emits_load_edit_form emits_verify_form emits_write_pos
        emits_save_form)
  from assms show ?thesis
    unfolding update_employee_pos_def
    by (cases rule: thn_cases) (auto dest: emitsD [OF body] intro: that)
qed

lemma refresh_page_events:
  assumes "refresh_page E cfg h = (Inr (), es)"
  shows "es = [Enter Fn_refresh_page, Goto (employee_search_url cfg) ''domcontentloaded'',
               Wait_for_timeout 2000]"
  using assms unfolding refresh_page_def
  by (auto elim!: thn_cases simp: call_def split: option.splits)

section \<open>Outcomes of a run\<close>

text \<open>The equation of \<open>retry_row\<close> is unfolded by hand, one turn of the loop at a time.\<close>

declare retry_row.simps [simp del]

lemma retry_row_outcome:
  "retry_row E cfg dry_run n backoff sd eid pos attempt h = (Inr r, es) \<Longrightarrow>
   row_outcome dry_run (eid, pos) r"
proof (induction E cfg dry_run n backoff sd eid pos attempt arbitrary: h es
    rule: retry_row.induct)
  case (1 E cfg dry_run n backoff sd eid pos attempt)
  from "1.prems" have
    "try_except
       (if \<not> dry_run then
          bind (update_employee_pos E cfg eid pos sd) (\<lambda>old_value.
            ret \<lparr>employee_id = eid, pos_id = pos, success = True,
                 old_pos = Some old_value, new_pos = Some pos, error = None\<rparr>)
        else
          ret \<lparr>employee_id = eid, pos_id = pos, success = True,
               old_pos = None, new_pos = Some pos, error = None\<rparr>)
       (\<lambda>e.
          if attempt + 1 > n then
            ret \<lparr>employee_id = eid, pos_id = pos, success = False,
                 old_pos = None, new_pos = None, error = Some (exn_str e)\<rparr>
          else
            thn (refresh_page E cfg)
           (thn (call E (Sleep backoff))
                (retry_row E cfg dry_run n backoff sd eid pos (attempt + 1)))) h = (Inr r, es)"
    by (subst (asm) retry_row.simps)
  then show ?case
  proof (cases rule: try_except_cases)
    case (returned x)
    then show ?thesis
      by (auto simp: row_outcome_def dry_result_def split: if_splits elim!: bind_cases)
  next
    case (handled e es1 es2)
    from handled(1) have real: "\<not> dry_run"
      by (auto split: if_splits)
    show ?thesis
    proof (cases "attempt + 1 > n")
      case True
      with handled(2) real show ?thesis by (auto simp: row_outcome_def)
    next
      case False
      with handled(2) obtain h' es' where
        "retry_row E cfg dry_run n backoff sd eid pos (attempt + 1) h' = (Inr r, es')"
        by (auto elim!: thn_cases)
      from "1.IH" [OF False this] show ?thesis .
    qed
  qed
qed

lemma process_rows_outcomes:
  "process_rows E cfg dry_run n backoff sd i rows results h = (Inr res, es) \<Longrightarrow>
   \<exists>new. res = results @ new \<and> list_all2 (row_outcome dry_run) rows new"
proof (induction rows arbitrary: i results h es)
  case Nil
  then show ?case by simp
next
  case (Cons row rows)
  obtain eid pos where row: "row = (eid, pos)" by (cases row)
  from Cons.prems obtain h1 r es1 h2 es2 where
    rr: "retry_row E cfg dry_run n backoff sd eid pos 0 h1 = (Inr r, es1)" and
    rest: "process_rows E cfg dry_run n backoff sd (i + 1) rows (results @ [r]) h2 = (Inr res, es2)"
    unfolding row by (auto elim!: thn_cases bind_cases)
  from Cons.IH [OF rest] obtain new where
    "res = (results @ [r]) @ new" "list_all2 (row_outcome dry_run) rows new"
    by blast
  with retry_row_outcome [OF rr] show ?case
    by (intro exI [of _ "r # new"]) (simp add: row)
qed

lemma run_updates_outcomes:
  assumes "run_updates E cfg creds rows headless dry_run retries_arg backoff_arg sd slowmo h
           = (Inr results, es)"
  shows "list_all2 (row_outcome dry_run) rows results"
proof -
  from assms obtain n backoff h' es' where
    "process_rows E cfg dry_run n backoff sd 0 rows [] h' = (Inr results, es')"
    unfolding run_updates_def Let_def
    by (auto elim!: thn_cases try_finally_cases)
  from process_rows_outcomes [OF this] show ?thesis by simp
qed

text \<open>
  Claim C1. A run of \<^verbatim>\<open>run_updates\<close> that returns, from any history and on any site,
  returns as many outcomes as there are rows, and the outcome at each index carries the
  employee id and the target value of the row at that index.
\<close>

theorem run_updates_one_outcome_per_row:
  assumes "run_updates E cfg creds rows headless dry_run retries_arg backoff_arg sd slowmo h
           = (Inr results, es)"
  shows "length results = length rows
     \<and> (\<forall>i < length rows. employee_id (results ! i) = fst (rows ! i)
                               \<and> pos_id (results ! i) = snd (rows ! i))"
  using run_updates_outcomes [OF assms]
  by (simp add: list_all2_conv_all_nth row_outcome_def)

text \<open>
  On the example site the run over the two example rows returns, with two outcomes, for
  \<^verbatim>\<open>E1\<close> and \<^verbatim>\<open>E2\<close> in this order.
\<close>

theorem run_updates_one_outcome_per_row_witness:
  "\<exists>results es.
     run_updates ok_env example_config example_creds example_rows True False None None 0 0 []
       = (Inr results, es)
     \<and> length results = 2
     \<and> employee_id (results ! 0) = ''E1'' \<and> pos_id (results ! 0) = ''P1''
     \<and> employee_id (results ! 1) = ''E2'' \<and> pos_id (results ! 1) = ''P2''"
proof -
  have "case fst (run_updates ok_env example_config example_creds example_rows
                    True False None None 0 0 []) of Inl e \<Rightarrow> False | Inr rs \<Rightarrow> True"
    by code_simp
  then obtain results es where run:
    "run_updates ok_env example_config example_creds example_rows True False None None 0 0 []
       = (Inr results, es)"
    by (cases "run_updates ok_env example_config example_creds example_rows
                 True False None None 0 0 []") (auto split: sum.splits)
  from run_updates_one_outcome_per_row [OF run]
  have "length results = 2"
    and "\<forall>i < 2. employee_id (results ! i) = fst (example_rows ! i)
                 \<and> pos_id (results ! i) = snd (example_rows ! i)"
    by (simp_all add: example_rows_def)
  then have "length results = 2
     \<and> employee_id (results ! 0) = ''E1'' \<and> pos_id (results ! 0) = ''P1''
     \<and> employee_id (results ! 1) = ''E2'' \<and> pos_id (results ! 1) = ''P2''"
    by (simp add: example_rows_def)
  with run show ?thesis by blast
qed

text \<open>
  Claim C2. In a run of \<^verbatim>\<open>run_updates\<close> that returns, every outcome has
  \<^verbatim>\<open>success\<close> exactly when \<^verbatim>\<open>error\<close> is \<^verbatim>\<open>None\<close>; a successful outcome has the row's
  target value as \<^verbatim>\<open>new_pos\<close>; and \<^verbatim>\<open>old_pos\<close> is set only in a successful outcome of a
  run that is not a dry run.
\<close>

theorem run_updates_outcome_invariant:
  assumes "run_updates E cfg creds rows headless dry_run retries_arg backoff_arg sd slowmo h
           = (Inr results, es)"
  shows "\<forall>i < length results.
           (success (results ! i) \<longleftrightarrow> error (results ! i) = None)
         \<and> (success (results ! i) \<longrightarrow> new_pos (results ! i) = Some (snd (rows ! i)))
         \<and> (old_pos (results ! i) \<noteq> None \<longrightarrow> success (results ! i) \<and> \<not> dry_run)"
  using run_updates_outcomes [OF assms]
  by (auto simp add: list_all2_conv_all_nth row_outcome_def)

text \<open>
  On the example site the first row succeeds and the second fails: the first outcome has
  no error and the new value \<^verbatim>\<open>P1\<close>, the second has an error and no old value.
\<close>

theorem run_updates_outcome_invariant_witness:
  "\<exists>results es.
     run_updates ok_env example_config example_creds example_rows True False None None 0 0 []
       = (Inr results, es)
     \<and> success (results ! 0) \<and> error (results ! 0) = None
     \<and> new_pos (results ! 0) = Some ''P1''
     \<and> \<not> success (results ! 1) \<and> error (results ! 1) \<noteq> None \<and> old_pos (results ! 1) = None"
proof -
  have "case fst (run_updates ok_env example_config example_creds example_rows
                    True False None None 0 0 []) of
          Inl e \<Rightarrow> False
        | Inr rs \<Rightarrow> length rs = 2 \<and> success (rs ! 0) \<and> \<not> success (rs ! 1)"
    by code_simp
  then obtain results es where run:
    "run_updates ok_env example_config example_creds example_rows True False None None 0 0 []
       = (Inr results, es)"
    and shape: "length results = 2" "success (results ! 0)" "\<not> success (results ! 1)"
    by (cases "run_updates ok_env example_config example_creds example_rows
                 True False None None 0 0 []") (auto split: sum.splits)
  from run_updates_outcome_invariant [OF run] shape(1)
  have inv: "\<forall>i < 2.
           (success (results ! i) \<longleftrightarrow> error (results ! i) = None)
         \<and> (success (results ! i) \<longrightarrow> new_pos (results ! i) = Some (snd (example_rows ! i)))
         \<and> (old_pos (results ! i) \<noteq> None \<longrightarrow> success (results ! i) \<and> \<not> False)"
    by auto
  from inv [rule_format, of 0] inv [rule_format, of 1] shape
  have "success (results ! 0) \<and> error (results ! 0) = None
     \<and> new_pos (results ! 0) = Some ''P1''
     \<and> \<not> success (results ! 1) \<and> error (results ! 1) \<noteq> None \<and> old_pos (results ! 1) = None"
    by (auto simp: example_rows_def)
  with run show ?thesis by blast
qed



section \<open>Counting events\<close>

lemma count_Nil [simp]: "count_attempts [] = 0" "count_resets [] = 0" "count_backoffs [] = 0"
  by (simp_all add: count_attempts_def count_resets_def count_backoffs_def)

lemma count_append [simp]:
  "count_attempts (xs @ ys) = count_attempts xs + count_attempts ys"
  "count_resets (xs @ ys) = count_resets xs + count_resets ys"
  "count_backoffs (xs @ ys) = count_backoffs xs + count_backoffs ys"
  by (simp_all add: count_attempts_def count_resets_def count_backoffs_def)

lemma count_Cons [simp]:
  "count_attempts (ev # es) = (if is_attempt ev then 1 else 0) + count_attempts es"
  "count_resets (ev # es) = (if is_reset ev then 1 else 0) + count_resets es"
  "count_backoffs (ev # es) = (if is_backoff ev then 1 else 0) + count_backoffs es"
  by (simp_all add: count_attempts_def count_resets_def count_backoffs_def)

lemma count_page_calls:
  "list_all page_call es \<Longrightarrow>
   count_attempts es = 0 \<and> count_resets es = 0 \<and> count_backoffs es = 0"
  by (induction es) (simp_all add: page_call_def)


lemma retry_row_dry: "retry_row E cfg True n b sd eid pos a h = (Inr (dry_result (eid, pos)), [])"
  by (subst retry_row.simps) (simp add: try_except_def dry_result_def)





section \<open>Dry runs\<close>

lemma emits_mono: "emits P m \<Longrightarrow> (\<And>ev. P ev \<Longrightarrow> Q ev) \<Longrightarrow> emits Q m"
  by (auto simp: emits_def list_all_iff)

lemma emits_refresh_page:
  "P (Enter Fn_refresh_page) \<Longrightarrow> P (Goto (employee_search_url cfg) ''domcontentloaded'')
   \<Longrightarrow> P (Wait_for_timeout 2000) \<Longrightarrow> emits P (refresh_page E cfg)"
  by (simp add: refresh_page_def emits_rules)

lemma emits_retry_row_dry: "emits P (retry_row E cfg True n b sd eid pos a)"
  by (simp add: emits_def retry_row_dry)

lemma emits_process_rows_dry:
  "emits (\<lambda>ev. \<not> is_attempt ev) (process_rows E cfg True n b sd i rows results)"
  by (induction rows arbitrary: i results)
     (auto simp: emits_rules emits_retry_row_dry emits_refresh_page)

lemma emits_run_updates_dry:
  "emits (\<lambda>ev. \<not> is_attempt ev)
     (run_updates E cfg creds rows headless True retries_arg backoff_arg sd slowmo)"
proof -
  have "emits (\<lambda>ev. \<not> is_attempt ev) (login E cfg creds)"
    by (rule emits_mono [OF emits_login]) (simp add: page_call_def)
  then show ?thesis
    by (simp add: run_updates_def Let_def emits_rules emits_process_rows_dry)
qed

text \<open>
  Claim C3. With \<^verbatim>\<open>dry_run\<close> set, whatever the site does and however the run ends,
  \<^verbatim>\<open>update_employee_pos\<close> is never entered; and when the run returns, the outcome of
  every row is the one of line 154: success, no old value, the row's target value as the
  new value, no error.
\<close>

theorem dry_run_never_updates:
  assumes "run_updates E cfg creds rows headless True retries_arg backoff_arg sd slowmo h
           = (r, es)"
  shows "(\<forall>eid pos. Enter (Fn_update_employee_pos eid pos) \<notin> set es)
     \<and> (\<forall>results. r = Inr results \<longrightarrow>
          length results = length rows
          \<and> (\<forall>i < length rows.
               results ! i =
                 \<lparr>employee_id = fst (rows ! i), pos_id = snd (rows ! i), success = True,
                  old_pos = None, new_pos = Some (snd (rows ! i)), error = None\<rparr>))"
proof (intro conjI allI impI)
  fix eid pos
  from emitsD [OF emits_run_updates_dry assms]
  have "list_all (\<lambda>ev. \<not> is_attempt ev) es" .
  then show "Enter (Fn_update_employee_pos eid pos) \<notin> set es"
    by (auto simp: list_all_iff)
next
  fix results assume "r = Inr results"
  with assms have "list_all2 (row_outcome True) rows results"
    by (auto dest: run_updates_outcomes)
  then show "length results = length rows"
    and "\<And>i. i < length rows \<Longrightarrow>
         results ! i =
           \<lparr>employee_id = fst (rows ! i), pos_id = snd (rows ! i), success = True,
            old_pos = None, new_pos = Some (snd (rows ! i)), error = None\<rparr>"
    by (simp_all add: list_all2_conv_all_nth row_outcome_def dry_result_def)
qed

text \<open>The dry run over the two example rows returns exactly these two outcomes.\<close>

theorem dry_run_never_updates_witness:
  "\<exists>results es.
     run_updates ok_env example_config example_creds example_rows True True None None 0 0 []
       = (Inr results, es)
     \<and> Enter (Fn_update_employee_pos ''E1'' ''P1'') \<notin> set es
     \<and> Enter (Fn_update_employee_pos ''E2'' ''P2'') \<notin> set es
     \<and> results =
         [\<lparr>employee_id = ''E1'', pos_id = ''P1'', success = True,
           old_pos = None, new_pos = Some ''P1'', error = None\<rparr>,
          \<lparr>employee_id = ''E2'', pos_id = ''P2'', success = True,
           old_pos = None, new_pos = Some ''P2'', error = None\<rparr>]"
proof -
  have "case fst (run_updates ok_env example_config example_creds example_rows
                    True True None None 0 0 []) of Inl e \<Rightarrow> False | Inr rs \<Rightarrow> True"
    by code_simp
  then obtain results es where run:
    "run_updates ok_env example_config example_creds example_rows True True None None 0 0 []
       = (Inr results, es)"
    by (cases "run_updates ok_env example_config example_creds example_rows
                 True True None None 0 0 []") (auto split: sum.splits)
  from dry_run_never_updates [OF run]
  have no: "\<forall>eid pos. Enter (Fn_update_employee_pos eid pos) \<notin> set es"
    and len: "length results = 2"
    and rs: "\<forall>i < 2. results ! i =
                 \<lparr>employee_id = fst (example_rows ! i), pos_id = snd (example_rows ! i),
                  success = True, old_pos = None, new_pos = Some (snd (example_rows ! i)),
                  error = None\<rparr>"
    by (simp_all add: example_rows_def)
  from len rs have "results =
         [\<lparr>employee_id = ''E1'', pos_id = ''P1'', success = True,
           old_pos = None, new_pos = Some ''P1'', error = None\<rparr>,
          \<lparr>employee_id = ''E2'', pos_id = ''P2'', success = True,
           old_pos = None, new_pos = Some ''P2'', error = None\<rparr>]"
    by (auto simp: example_rows_def list_eq_iff_nth_eq less_Suc_eq numeral_2_eq_2)
  with run no show ?thesis by blast
qed

section \<open>Resets, retries and attempts\<close>






section \<open>The retry budget\<close>

lemma before_last_attempt_append:
  assumes "\<exists>ev \<in> set es. is_attempt ev"
  shows "before_last_attempt (pre @ es) = pre @ before_last_attempt es"
proof -
  from assms have "\<exists>ev \<in> set (rev es). \<not> \<not> is_attempt ev" by simp
  then have d: "dropWhile (\<lambda>ev. \<not> is_attempt ev) (rev es @ rev pre)
                = dropWhile (\<lambda>ev. \<not> is_attempt ev) (rev es) @ rev pre"
    by (metis dropWhile_append1)
  from assms have "dropWhile (\<lambda>ev. \<not> is_attempt ev) (rev es) \<noteq> []"
    by (auto simp: dropWhile_eq_Nil_conv)
  with d show ?thesis
    by (simp add: before_last_attempt_def)
qed

lemma before_last_attempt_first:
  assumes "is_attempt ev" "list_all page_call rest"
  shows "before_last_attempt (ev # rest) = []"
proof -
  from assms(2) have "\<forall>x \<in> set (rev rest). \<not> is_attempt x"
    by (auto simp: list_all_iff page_call_def)
  then have "dropWhile (\<lambda>ev. \<not> is_attempt ev) (rev rest @ [ev])
             = dropWhile (\<lambda>ev. \<not> is_attempt ev) [ev]"
    by (metis dropWhile_append2)
  with assms(1) show ?thesis
    by (simp add: before_last_attempt_def)
qed

lemma retry_row_exhausts:
  assumes fails: "\<forall>h. fst (update_employee_pos E cfg eid pos sd h) = Inl (err h)"
    and refresh: "\<forall>h. fst (refresh_page E cfg h) = Inr ()"
    and sleep: "\<forall>h. env_act E h (Sleep b) = None"
  shows "\<exists>es. retry_row E cfg False n b sd eid pos a h
               = (Inr \<lparr>employee_id = eid, pos_id = pos, success = False, old_pos = None,
                       new_pos = None,
                       error = Some (exn_str (err (h @ before_last_attempt es)))\<rparr>, es)
             \<and> int (count_attempts es) = max (n - a) 0 + 1"
proof (induction "nat (n - a)" arbitrary: a h)
  case 0
  obtain es1 where u: "update_employee_pos E cfg eid pos sd h = (Inl (err h), es1)"
    using fails [rule_format, of h] by (cases "update_employee_pos E cfg eid pos sd h") simp
  then obtain rest where es1: "es1 = Enter (Fn_update_employee_pos eid pos) # rest"
    and rest: "list_all page_call rest"
    by (rule update_employee_pos_events)
  from 0 have last: "a + 1 > n" by simp
  have "retry_row E cfg False n b sd eid pos a h
        = (Inr \<lparr>employee_id = eid, pos_id = pos, success = False, old_pos = None,
                new_pos = None, error = Some (exn_str (err h))\<rparr>, es1)"
    using u last by (subst retry_row.simps) (simp add: try_except_def bind_def)
  moreover have "before_last_attempt es1 = []"
    unfolding es1 by (rule before_last_attempt_first) (simp_all add: rest)
  moreover have "int (count_attempts es1) = max (n - a) 0 + 1"
    using last count_page_calls [OF rest] by (simp add: es1)
  ultimately show ?case by auto
next
  case (Suc k)
  obtain es1 where u: "update_employee_pos E cfg eid pos sd h = (Inl (err h), es1)"
    using fails [rule_format, of h] by (cases "update_employee_pos E cfg eid pos sd h") simp
  then obtain rest where es1: "es1 = Enter (Fn_update_employee_pos eid pos) # rest"
    and rest: "list_all page_call rest"
    by (rule update_employee_pos_events)
  from Suc(2) have more: "\<not> a + 1 > n" and k: "k = nat (n - (a + 1))" by simp_all
  obtain esr where r: "refresh_page E cfg (h @ es1) = (Inr (), esr)"
    using refresh [rule_format, of "h @ es1"] by (cases "refresh_page E cfg (h @ es1)") simp
  have s: "call E (Sleep b) (h @ es1 @ esr) = (Inr (), [Sleep b])"
    using sleep by (simp add: call_def)
  from Suc(1) [OF k, of "h @ es1 @ esr @ [Sleep b]"] obtain es' where
    rec: "retry_row E cfg False n b sd eid pos (a + 1) (h @ es1 @ esr @ [Sleep b])
          = (Inr \<lparr>employee_id = eid, pos_id = pos, success = False, old_pos = None,
                  new_pos = None,
                  error = Some (exn_str (err ((h @ es1 @ esr @ [Sleep b])
                                              @ before_last_attempt es')))\<rparr>, es')"
    and cnt: "int (count_attempts es') = max (n - (a + 1)) 0 + 1"
    by blast
  let ?es = "es1 @ esr @ [Sleep b] @ es'"
  have run: "retry_row E cfg False n b sd eid pos a h
        = (Inr \<lparr>employee_id = eid, pos_id = pos, success = False, old_pos = None,
                new_pos = None,
                error = Some (exn_str (err ((h @ es1 @ esr @ [Sleep b])
                                            @ before_last_attempt es')))\<rparr>, ?es)"
    using u more r s rec
    by (subst retry_row.simps) (simp add: try_except_def bind_def thn_def)
  from cnt have "count_attempts es' > 0" by simp
  then have "\<exists>ev \<in> set es'. is_attempt ev"
    by (auto simp: count_attempts_def filter_empty_conv)
  from before_last_attempt_append [OF this, of "es1 @ esr @ [Sleep b]"]
  have bla: "before_last_attempt ?es = es1 @ esr @ [Sleep b] @ before_last_attempt es'"
    by simp
  have "int (count_attempts ?es) = max (n - a) 0 + 1"
    using cnt more count_page_calls [OF rest] refresh_page_events [OF r]
    by (simp add: es1)
  with run bla show ?case by (intro exI [of _ ?es]) simp
qed

text \<open>
  Claim C4, as the code has it. When the row updater fails on every attempt (with an error
  that may depend on the history) and the resets and sleeps between attempts return, the
  row is attempted \<open>max retries 0 + 1\<close> times, which is \<open>retries + 1\<close> for every budget
  that is not negative, and the row ends as a failed outcome that records the message of
  the error of the last attempt. The kind of the error plays no part.
\<close>

theorem retry_budget:
  assumes "\<forall>h. fst (update_employee_pos E cfg eid pos sd h) = Inl (err h)"
    and "\<forall>h. fst (refresh_page E cfg h) = Inr ()"
    and "\<forall>h. env_act E h (Sleep b) = None"
  shows "\<exists>es. retry_row E cfg False n b sd eid pos 0 h
               = (Inr \<lparr>employee_id = eid, pos_id = pos, success = False, old_pos = None,
                       new_pos = None,
                       error = Some (exn_str (err (h @ before_last_attempt es)))\<rparr>, es)
             \<and> int (count_attempts es) = max n 0 + 1"
  using retry_row_exhausts [OF assms, of n 0 h] by simp

lemma no_data_update:
  "fst (update_employee_pos no_data_env example_config eid pos 0 h)
   = Inl (ValueError (no_permission_msg eid))"
  by (simp add: update_employee_pos_def load_edit_form_def search_employee_def
      thn_def bind_def try_except_def call_def call_count_def step_delay_def no_data_env_def)

text \<open>
  On the site that always shows "no data", with the default budget of two retries, the
  row is attempted three times and fails with the not-found-or-no-permission message.
\<close>

theorem retry_budget_witness:
  "\<exists>es. retry_row no_data_env example_config False (retries example_config) 2 0 ''E1'' ''P1'' 0 []
          = (Inr \<lparr>employee_id = ''E1'', pos_id = ''P1'', success = False, old_pos = None,
                  new_pos = None, error = Some (no_permission_msg ''E1'')\<rparr>, es)
        \<and> count_attempts es = 3"
proof -
  have r: "\<forall>h. fst (refresh_page no_data_env example_config h) = Inr ()"
    by (simp add: refresh_page_def thn_def bind_def call_def no_data_env_def)
  have s: "\<forall>h. env_act no_data_env h (Sleep 2) = None"
    by (simp add: no_data_env_def)
  have n: "retries example_config = 2"
    by (simp add: example_config_def default_config_def)
  from retry_budget [of no_data_env example_config "''E1''" "''P1''" 0
      "\<lambda>h. ValueError (no_permission_msg ''E1'')" 2 "retries example_config" "[]",
      OF no_data_update [THEN allI] r s]
  show ?thesis by (simp add: n)
qed

text \<open>
  Claim C4 as the specification words it fails for a negative budget: with
  \<^verbatim>\<open>retries=-1\<close> the row is attempted once, not \<open>retries + 1 = 0\<close> times.
\<close>

theorem retry_budget_negative_counterexample:
  "fst negative_retries_run =
     Inr [\<lparr>employee_id = ''E1'', pos_id = ''P1'', success = False, old_pos = None,
           new_pos = None, error = Some (no_permission_msg ''E1'')\<rparr>]
   \<and> count_attempts (snd negative_retries_run) = 1
   \<and> int (count_attempts (snd negative_retries_run)) \<noteq> (- 1) + 1"
  by code_simp

section \<open>Row-scoped and fatal failures\<close>

lemma retry_row_returns:
  assumes "resets_ok E cfg"
  shows "\<exists>r es. retry_row E cfg dry_run n b sd eid pos a h = (Inr r, es)"
proof (induction "nat (n - a)" arbitrary: a h)
  case 0
  then have last: "n \<le> a" by simp
  show ?case
    using last
    by (subst retry_row.simps)
       (auto simp: try_except_def bind_def split: prod.splits sum.splits)
next
  case (Suc k)
  then have more: "\<not> a + 1 > n" and k: "k = nat (n - (a + 1))" by simp_all
  show ?case
  proof (cases "update_employee_pos E cfg eid pos sd h")
    case (Pair ur es1)
    show ?thesis
    proof (cases "dry_run \<or> isl ur = False")
      case True
      with Pair show ?thesis
        by (subst retry_row.simps)
           (auto simp: try_except_def bind_def split: prod.splits sum.splits)
    next
      case False
      then obtain e where ur: "ur = Inl e" and real: "\<not> dry_run" by (cases ur) auto
      have "fst (refresh_page E cfg (h @ es1)) = Inr ()"
        using assms by (simp add: resets_ok_def)
      then obtain esr where r: "refresh_page E cfg (h @ es1) = (Inr (), esr)"
        by (cases "refresh_page E cfg (h @ es1)") auto
      have s: "call E (Sleep b) (h @ es1 @ esr) = (Inr (), [Sleep b])"
        using assms by (simp add: call_def resets_ok_def)
      from Suc(1) [OF k, of "h @ es1 @ esr @ [Sleep b]"] obtain r' es' where
        "retry_row E cfg dry_run n b sd eid pos (a + 1) (h @ es1 @ esr @ [Sleep b]) = (Inr r', es')"
        by blast
      with Pair ur real more r s show ?thesis
        by (subst retry_row.simps) (simp add: try_except_def bind_def thn_def)
    qed
  qed
qed

lemma process_rows_returns:
  assumes "resets_ok E cfg"
  shows "\<exists>res es. process_rows E cfg dry_run n b sd i rows results h = (Inr res, es)"
proof (induction rows arbitrary: i results h)
  case Nil
  show ?case by simp
next
  case (Cons row rows)
  obtain eid pos where row: "row = (eid, pos)" by (cases row)
  have "fst (refresh_page E cfg h) = Inr ()"
    using assms by (simp add: resets_ok_def)
  then have "\<exists>es0. (if i > 0 then refresh_page E cfg else ret ()) h = (Inr (), es0)"
    by (cases "refresh_page E cfg h") auto
  then obtain es0 where first: "(if i > 0 then refresh_page E cfg else ret ()) h = (Inr (), es0)"
    by blast
  obtain r es1 where rr: "retry_row E cfg dry_run n b sd eid pos 0 (h @ es0) = (Inr r, es1)"
    using retry_row_returns [OF assms] by blast
  obtain res es2 where
    "process_rows E cfg dry_run n b sd (i + 1) rows (results @ [r]) (h @ es0 @ es1) = (Inr res, es2)"
    using Cons.IH by blast
  with first rr show ?case
    unfolding row by (simp add: thn_def bind_def)
qed

lemma run_updates_unfolded:
  assumes "browser_ok E"
    and "login E cfg creds (h @ launch_events headless slowmo) = (lr, el)"
    and "process_rows E cfg dry_run
           (case retries_arg of None \<Rightarrow> retries cfg | Some n \<Rightarrow> n)
           (case backoff_arg of None \<Rightarrow> retry_backoff_seconds cfg | Some b \<Rightarrow> b)
           sd 0 rows [] (h @ launch_events headless slowmo @ el) = (pr, ep)"
  shows "run_updates E cfg creds rows headless dry_run retries_arg backoff_arg sd slowmo h
         = (case lr of
              Inl e \<Rightarrow> (Inl e, launch_events headless slowmo @ el
                               @ [Context_close, Browser_close, Stop_playwright])
            | Inr u \<Rightarrow> (pr, launch_events headless slowmo @ el @ ep
                               @ [Context_close, Browser_close, Stop_playwright]))"
  using assms
  by (cases "0 < slowmo"; cases lr)
     (simp_all add: run_updates_def Let_def thn_def bind_def try_finally_def call_def
      launch_events_def browser_ok_def)

lemma retry_row_failed_message:
  "retry_row E cfg dry_run n b sd eid pos a h = (Inr r, es) \<Longrightarrow> \<not> success r \<Longrightarrow>
   \<exists>h' e. fst (update_employee_pos E cfg eid pos sd h') = Inl e \<and> error r = Some (exn_str e)"
proof (induction E cfg dry_run n b sd eid pos a arbitrary: h es rule: retry_row.induct)
  case (1 E cfg dry_run n b sd eid pos a)
  from "1.prems"(1) have
    "try_except
       (if \<not> dry_run then
          bind (update_employee_pos E cfg eid pos sd) (\<lambda>old_value.
            ret \<lparr>employee_id = eid, pos_id = pos, success = True,
                 old_pos = Some old_value, new_pos = Some pos, error = None\<rparr>)
        else
          ret \<lparr>employee_id = eid, pos_id = pos, success = True,
               old_pos = None, new_pos = Some pos, error = None\<rparr>)
       (\<lambda>e.
          if a + 1 > n then
            ret \<lparr>employee_id = eid, pos_id = pos, success = False,
                 old_pos = None, new_pos = None, error = Some (exn_str e)\<rparr>
          else
            thn (refresh_page E cfg)
           (thn (call E (Sleep b))
                (retry_row E cfg dry_run n b sd eid pos (a + 1)))) h = (Inr r, es)"
    by (subst (asm) retry_row.simps)
  then show ?case
  proof (cases rule: try_except_cases)
    case (returned x)
    with "1.prems"(2) show ?thesis
      by (auto split: if_splits elim!: bind_cases)
  next
    case (handled e es1 es2)
    from handled(1) have u: "fst (update_employee_pos E cfg eid pos sd h) = Inl e"
      by (auto split: if_splits elim!: bind_cases)
    show ?thesis
    proof (cases "a + 1 > n")
      case True
      with handled(2) have "error r = Some (exn_str e)" by auto
      with u show ?thesis by blast
    next
      case False
      with handled(2) obtain h' es' where
        "retry_row E cfg dry_run n b sd eid pos (a + 1) h' = (Inr r, es')"
        by (auto elim!: thn_cases)
      from "1.IH" [OF False this "1.prems"(2)] show ?thesis .
    qed
  qed
qed

lemma process_rows_failed_messages:
  "process_rows E cfg dry_run n b sd i rows results h = (Inr res, es) \<Longrightarrow>
   \<exists>new. res = results @ new
     \<and> list_all2 (\<lambda>row r. \<not> success r \<longrightarrow>
          (\<exists>h' e. fst (update_employee_pos E cfg (fst row) (snd row) sd h') = Inl e
                   \<and> error r = Some (exn_str e))) rows new"
proof (induction rows arbitrary: i results h es)
  case Nil
  then show ?case by simp
next
  case (Cons row rows)
  obtain eid pos where row: "row = (eid, pos)" by (cases row)
  from Cons.prems obtain h1 r es1 h2 es2 where
    rr: "retry_row E cfg dry_run n b sd eid pos 0 h1 = (Inr r, es1)" and
    rest: "process_rows E cfg dry_run n b sd (i + 1) rows (results @ [r]) h2 = (Inr res, es2)"
    unfolding row by (auto elim!: thn_cases bind_cases)
  from Cons.IH [OF rest] obtain new where
    "res = (results @ [r]) @ new"
    "list_all2 (\<lambda>row r. \<not> success r \<longrightarrow>
          (\<exists>h' e. fst (update_employee_pos E cfg (fst row) (snd row) sd h') = Inl e
                   \<and> error r = Some (exn_str e))) rows new"
    by blast
  with retry_row_failed_message [OF rr] show ?case
    by (intro exI [of _ "r # new"]) (simp add: row)
qed

text \<open>
  What holds on a site whose browser calls around the loop return. First: when
  \<^verbatim>\<open>refresh_page\<close> and the backoff sleep never raise and login returns, the run returns
  one outcome per row, whatever \<^verbatim>\<open>update_employee_pos\<close> raises, and every failed outcome
  records the message of an exception that \<^verbatim>\<open>update_employee_pos\<close> raised for that row.
  Second: when login raises, the run raises the same exception and neither
  \<^verbatim>\<open>update_employee_pos\<close> nor \<^verbatim>\<open>refresh_page\<close> is entered.
\<close>

theorem failures_are_row_scoped:
  assumes "browser_ok E"
  shows "(resets_ok E cfg \<and> fst (login E cfg creds (h @ launch_events headless slowmo)) = Inr ()
          \<longrightarrow> (\<exists>results es.
                 run_updates E cfg creds rows headless dry_run retries_arg backoff_arg sd slowmo h
                   = (Inr results, es)
                 \<and> length results = length rows
                 \<and> (\<forall>i < length rows. \<not> success (results ! i) \<longrightarrow>
                      (\<exists>h' e. fst (update_employee_pos E cfg (fst (rows ! i)) (snd (rows ! i)) sd h')
                                 = Inl e
                               \<and> error (results ! i) = Some (exn_str e)))))
     \<and> (\<forall>e. fst (login E cfg creds (h @ launch_events headless slowmo)) = Inl e
          \<longrightarrow> (\<exists>es.
                 run_updates E cfg creds rows headless dry_run retries_arg backoff_arg sd slowmo h
                   = (Inl e, es)
                 \<and> count_attempts es = 0 \<and> count_resets es = 0))"
proof (intro conjI impI allI)
  assume "resets_ok E cfg \<and> fst (login E cfg creds (h @ launch_events headless slowmo)) = Inr ()"
  then have ok: "resets_ok E cfg"
    and "fst (login E cfg creds (h @ launch_events headless slowmo)) = Inr ()" by simp_all
  then obtain el where l: "login E cfg creds (h @ launch_events headless slowmo) = (Inr (), el)"
    by (cases "login E cfg creds (h @ launch_events headless slowmo)") simp
  from process_rows_returns [OF ok] obtain res ep where
    p: "process_rows E cfg dry_run
           (case retries_arg of None \<Rightarrow> retries cfg | Some n \<Rightarrow> n)
           (case backoff_arg of None \<Rightarrow> retry_backoff_seconds cfg | Some b \<Rightarrow> b)
           sd 0 rows [] (h @ launch_events headless slowmo @ el) = (Inr res, ep)"
    by blast
  from run_updates_unfolded [OF assms l p]
  have run: "run_updates E cfg creds rows headless dry_run retries_arg backoff_arg sd slowmo h
        = (Inr res, launch_events headless slowmo @ el @ ep
                    @ [Context_close, Browser_close, Stop_playwright])"
    by simp
  from process_rows_outcomes [OF p] have len: "length res = length rows"
    by (auto dest: list_all2_lengthD)
  from process_rows_failed_messages [OF p]
  have "\<forall>i < length rows. \<not> success (res ! i) \<longrightarrow>
          (\<exists>h' e. fst (update_employee_pos E cfg (fst (rows ! i)) (snd (rows ! i)) sd h') = Inl e
                   \<and> error (res ! i) = Some (exn_str e))"
    by (simp add: list_all2_conv_all_nth)
  with run len show "\<exists>results es.
       run_updates E cfg creds rows headless dry_run retries_arg backoff_arg sd slowmo h
         = (Inr results, es)
       \<and> length results = length rows
       \<and> (\<forall>i < length rows. \<not> success (results ! i) \<longrightarrow>
            (\<exists>h' e. fst (update_employee_pos E cfg (fst (rows ! i)) (snd (rows ! i)) sd h') = Inl e
                     \<and> error (results ! i) = Some (exn_str e)))"
    by blast
next
  fix e
  assume "fst (login E cfg creds (h @ launch_events headless slowmo)) = Inl e"
  then obtain el where l: "login E cfg creds (h @ launch_events headless slowmo) = (Inl e, el)"
    by (cases "login E cfg creds (h @ launch_events headless slowmo)") simp
  obtain pr ep where
    p: "process_rows E cfg dry_run
           (case retries_arg of None \<Rightarrow> retries cfg | Some n \<Rightarrow> n)
           (case backoff_arg of None \<Rightarrow> retry_backoff_seconds cfg | Some b \<Rightarrow> b)
           sd 0 rows [] (h @ launch_events headless slowmo @ el) = (pr, ep)"
    by (cases "process_rows E cfg dry_run
           (case retries_arg of None \<Rightarrow> retries cfg | Some n \<Rightarrow> n)
           (case backoff_arg of None \<Rightarrow> retry_backoff_seconds cfg | Some b \<Rightarrow> b)
           sd 0 rows [] (h @ launch_events headless slowmo @ el)")
  from run_updates_unfolded [OF assms l p]
  have run: "run_updates E cfg creds rows headless dry_run retries_arg backoff_arg sd slowmo h
        = (Inl e, launch_events headless slowmo @ el
                  @ [Context_close, Browser_close, Stop_playwright])"
    by simp
  from emitsD [OF emits_login l] have "list_all page_call el" .
  from count_page_calls [OF this]
  have "count_attempts (launch_events headless slowmo @ el
                        @ [Context_close, Browser_close, Stop_playwright]) = 0"
    and "count_resets (launch_events headless slowmo @ el
                        @ [Context_close, Browser_close, Stop_playwright]) = 0"
    by (simp_all add: launch_events_def)
  with run show "\<exists>es.
       run_updates E cfg creds rows headless dry_run retries_arg backoff_arg sd slowmo h = (Inl e, es)
       \<and> count_attempts es = 0 \<and> count_resets es = 0"
    by blast
qed

text \<open>
  Both parts at work: the example site returns two outcomes for the two example rows; the
  site whose login button times out raises that timeout and processes no row.
\<close>

theorem failures_are_row_scoped_witness:
  "(\<exists>results es.
      run_updates ok_env example_config example_creds example_rows True False None None 0 0 []
        = (Inr results, es)
      \<and> length results = 2)
   \<and> (\<exists>es.
      run_updates login_fail_env example_config example_creds example_rows True False None None 0 0 []
        = (Inl (PageError ''Timeout 30000ms exceeded.''), es)
      \<and> count_attempts es = 0 \<and> count_resets es = 0)"
proof -
  have b1: "browser_ok ok_env" by (simp add: browser_ok_def ok_env_def)
  have r1: "resets_ok ok_env example_config"
    by (simp add: resets_ok_def refresh_page_def thn_def bind_def call_def ok_env_def)
  have l1: "fst (login ok_env example_config example_creds ([] @ launch_events True 0)) = Inr ()"
    by (simp add: login_def thn_def bind_def call_def ok_env_def)
  have b2: "browser_ok login_fail_env" by (simp add: browser_ok_def login_fail_env_def)
  have l2: "fst (login login_fail_env example_config example_creds ([] @ launch_events True 0))
            = Inl (PageError ''Timeout 30000ms exceeded.'')"
    by (simp add: login_def thn_def bind_def call_def login_fail_env_def example_config_def
        default_config_def example_selectors_def)
  from failures_are_row_scoped [OF b1, of example_config example_creds "[]" True 0
      example_rows False None None 0] r1 l1
  have "\<exists>results es.
      run_updates ok_env example_config example_creds example_rows True False None None 0 0 []
        = (Inr results, es)
      \<and> length results = 2"
    by (auto simp: example_rows_def)
  moreover
  from failures_are_row_scoped [OF b2, of example_config example_creds "[]" True 0
      example_rows False None None 0] l2
  have "\<exists>es.
      run_updates login_fail_env example_config example_creds example_rows True False None None 0 0 []
        = (Inl (PageError ''Timeout 30000ms exceeded.''), es)
      \<and> count_attempts es = 0 \<and> count_resets es = 0"
    by blast
  ultimately show ?thesis by blast
qed

text \<open>
  An exception of \<^verbatim>\<open>refresh_page\<close> in the handler of a failed attempt (line 164) is not
  caught: it leaves the loop of the row, for every site and every budget that allows a
  retry.
\<close>

lemma retry_row_reset_raises:
  assumes "update_employee_pos E cfg eid pos sd h = (Inl e, es1)"
    and "a + 1 \<le> n"
    and "refresh_page E cfg (h @ es1) = (Inl e', esr)"
  shows "retry_row E cfg False n b sd eid pos a h = (Inl e', es1 @ esr)"
  using assms
  by (subst retry_row.simps) (simp add: try_except_def bind_def thn_def)

text \<open>
  Claim C7 on the code. The handler of line 156 catches what \<^verbatim>\<open>update_employee_pos\<close>
  raises, but \<^verbatim>\<open>refresh_page\<close> runs inside that handler (line 164) and before the
  \<^verbatim>\<open>try\<close> of every row after the first (line 144). On the site whose search page stops
  loading, the run for one row makes one attempt, which fails, enters \<^verbatim>\<open>refresh_page\<close>
  once, and ends with the timeout of that navigation: no failed outcome is recorded and
  nothing is returned. The dry run over two rows ends the same way at the reset before the
  second row.
\<close>

theorem refresh_failure_ends_run:
  "fst stuck_run = Inl (PageError ''Timeout 30000ms exceeded.'')
   \<and> count_attempts (snd stuck_run) = 1 \<and> count_resets (snd stuck_run) = 1
   \<and> fst stuck_second_row_run = Inl (PageError ''Timeout 30000ms exceeded.'')
   \<and> count_attempts (snd stuck_second_row_run) = 0
   \<and> count_resets (snd stuck_second_row_run) = 1"
  by code_simp

section \<open>The identity check of the edit form\<close>

lemma row_xpath_not_info [simp]: "row_xpath eid \<noteq> ''#info''"
  by (simp add: row_xpath_def)

lemma emits_load_no_target:
  "emits (\<lambda>ev. \<not> target_field_event ev) (load_edit_form E cfg eid sd)"
proof -
  have w: "emits (\<lambda>ev. \<not> target_field_event ev) (wait_for_row E eid m rs)" for m rs
    by (induction rs) (simp_all add: emits_rules)
  show ?thesis
    by (simp add: load_edit_form_def search_employee_def open_edit_form_def emits_rules w)
qed

text \<open>
  Claim C6. When the edit form has been reached and the value it shows in
  \<^verbatim>\<open>#sharing_key\<close>, stripped, differs from the employee id asked for, then
  \<^verbatim>\<open>update_employee_pos\<close> raises the wrong-user error right after reading that value: the
  calls it has made are the entry, those that reached the form, and that read, and none of
  them waits for, reads or writes the target field \<^verbatim>\<open>#info\<close> or clicks the save button.
\<close>

theorem identity_mismatch_guard:
  assumes "load_edit_form E cfg eid sd (h @ [Enter (Fn_update_employee_pos eid pos)]) = (Inr (), es1)"
    and "env_text E (h @ Enter (Fn_update_employee_pos eid pos) # es1) (Input_value ''#sharing_key'')
         = Inr v"
    and "strip v \<noteq> eid"
  shows "update_employee_pos E cfg eid pos sd h
         = (Inl (ValueError (wrong_user_msg eid v)),
            Enter (Fn_update_employee_pos eid pos) # es1 @ [Input_value ''#sharing_key''])
     \<and> list_all (\<lambda>ev. \<not> target_field_event ev)
          (Enter (Fn_update_employee_pos eid pos) # es1 @ [Input_value ''#sharing_key''])"
proof
  show "update_employee_pos E cfg eid pos sd h
         = (Inl (ValueError (wrong_user_msg eid v)),
            Enter (Fn_update_employee_pos eid pos) # es1 @ [Input_value ''#sharing_key''])"
    using assms
    by (simp add: update_employee_pos_def verify_form_def thn_def bind_def call_text_def)
  from emitsD [OF emits_load_no_target assms(1)]
  show "list_all (\<lambda>ev. \<not> target_field_event ev)
          (Enter (Fn_update_employee_pos eid pos) # es1 @ [Input_value ''#sharing_key''])"
    by simp
qed

text \<open>
  On the example site the form always shows \<^verbatim>\<open>E1\<close>: an update of \<^verbatim>\<open>E2\<close> raises the
  wrong-user error without touching the target field.
\<close>

theorem identity_mismatch_guard_witness:
  "\<exists>es. update_employee_pos ok_env example_config ''E2'' ''P2'' 0 []
          = (Inl (ValueError (wrong_user_msg ''E2'' ''E1'')), es)
        \<and> list_all (\<lambda>ev. \<not> target_field_event ev) es"
proof -
  have "fst (load_edit_form ok_env example_config ''E2'' 0
               ([] @ [Enter (Fn_update_employee_pos ''E2'' ''P2'')])) = Inr ()"
    by code_simp
  then obtain es1 where l:
    "load_edit_form ok_env example_config ''E2'' 0
       ([] @ [Enter (Fn_update_employee_pos ''E2'' ''P2'')]) = (Inr (), es1)"
    by (cases "load_edit_form ok_env example_config ''E2'' 0
                 ([] @ [Enter (Fn_update_employee_pos ''E2'' ''P2'')])") simp
  have t: "env_text ok_env ([] @ Enter (Fn_update_employee_pos ''E2'' ''P2'') # es1)
             (Input_value ''#sharing_key'') = Inr ''E1''"
    by (simp add: ok_env_def)
  have d: "strip ''E1'' \<noteq> ''E2''"
    by code_simp
  from identity_mismatch_guard [OF l t d] show ?thesis by blast
qed

section \<open>Waiting for the result row\<close>

lemma range_3: "[0..<3] = [0, 1, 2::nat]"
  by code_simp

lemma wait_for_row_exhausted:
  assumes "\<forall>h'. env_act E h' (Wait_for_selector (row_xpath eid) 10000) = Some (err h')"
    and "\<forall>h'. env_act E h' (Wait_for_timeout 2000) = None
             \<and> env_act E h' (Click ''#doSearch'') = None
             \<and> env_act E h' (Wait_for_timeout 3000) = None
             \<and> env_act E h' (Screenshot (''debug_search_'' @ eid @ ''_2.png'')) = None"
    and "env_count E (h @ poll_events eid @ [Screenshot (''debug_search_'' @ eid @ ''_2.png'')])
           (Count (Locator no_data_selector)) = Inr n"
  shows "wait_for_row E eid 3 [0..<3] h
         = (Inl (ValueError
                  (if n > 0 then no_permission_msg eid
                   else row_not_found_msg eid 3 (err (h @ take 8 (poll_events eid))))),
            poll_events eid
              @ [Screenshot (''debug_search_'' @ eid @ ''_2.png''),
                 Count (Locator no_data_selector)])"
  using assms
  by (simp add: range_3 poll_events_def thn_def bind_def try_except_def call_def call_count_def)

text \<open>
  Claim C8. When the search has gone through without the "no data" text (so
  \<^verbatim>\<open>search_employee\<close> returned) and every wait for the row fails, \<^verbatim>\<open>update_employee_pos\<close>
  makes exactly three waits for the row, with a wait, a new click on the search button
  and a wait between them, then takes a screenshot and counts the "no data" text again:
  if it is there now, the error is the not-found-or-no-permission one, otherwise the
  row-not-found one, which names the employee id, the three tries and the error of the
  last wait.
\<close>

theorem row_poll_bounded:
  assumes "search_employee E cfg eid sd (h @ [Enter (Fn_update_employee_pos eid pos)]) = (Inr (), es1)"
    and "\<forall>h'. env_act E h' (Wait_for_selector (row_xpath eid) 10000) = Some (err h')"
    and "\<forall>h'. env_act E h' (Wait_for_timeout 2000) = None
             \<and> env_act E h' (Click ''#doSearch'') = None
             \<and> env_act E h' (Wait_for_timeout 3000) = None
             \<and> env_act E h' (Screenshot (''debug_search_'' @ eid @ ''_2.png'')) = None"
    and "env_count E
           (h @ Enter (Fn_update_employee_pos eid pos) # es1 @ poll_events eid
              @ [Screenshot (''debug_search_'' @ eid @ ''_2.png'')])
           (Count (Locator no_data_selector)) = Inr n"
  shows "update_employee_pos E cfg eid pos sd h
         = (Inl (ValueError
                  (if n > 0 then no_permission_msg eid
                   else row_not_found_msg eid 3
                          (err (h @ Enter (Fn_update_employee_pos eid pos) # es1
                                  @ take 8 (poll_events eid))))),
            Enter (Fn_update_employee_pos eid pos) # es1 @ poll_events eid
              @ [Screenshot (''debug_search_'' @ eid @ ''_2.png''),
                 Count (Locator no_data_selector)])"
proof -
  from assms(4) have "env_count E
           ((h @ Enter (Fn_update_employee_pos eid pos) # es1) @ poll_events eid
              @ [Screenshot (''debug_search_'' @ eid @ ''_2.png'')])
           (Count (Locator no_data_selector)) = Inr n"
    by simp
  from wait_for_row_exhausted [OF assms(2,3) this] assms(1) show ?thesis
    by (simp add: update_employee_pos_def load_edit_form_def thn_def bind_def)
qed

text \<open>
  On the site with neither "no data" nor a row for \<^verbatim>\<open>E1\<close>, the update of \<^verbatim>\<open>E1\<close> raises
  the row-not-found error after three waits for the row; the search button has been
  clicked three times, once by the search and twice by the loop.
\<close>

theorem row_poll_bounded_witness:
  "\<exists>es. update_employee_pos no_row_env example_config ''E1'' ''P1'' 0 []
          = (Inl (ValueError (row_not_found_msg ''E1'' 3 (PageError ''Timeout 10000ms exceeded.''))),
             es)
        \<and> length (filter (\<lambda>ev. ev = Wait_for_selector (row_xpath ''E1'') 10000) es) = 3
        \<and> length (filter (\<lambda>ev. ev = Click ''#doSearch'') es) = 3"
proof -
  have "fst (search_employee no_row_env example_config ''E1'' 0
               ([] @ [Enter (Fn_update_employee_pos ''E1'' ''P1'')])) = Inr ()
        \<and> length (filter (\<lambda>ev. ev = Click ''#doSearch'')
                     (snd (search_employee no_row_env example_config ''E1'' 0
                             ([] @ [Enter (Fn_update_employee_pos ''E1'' ''P1'')])))) = 1
        \<and> length (filter (\<lambda>ev. ev = Wait_for_selector (row_xpath ''E1'') 10000)
                     (snd (search_employee no_row_env example_config ''E1'' 0
                             ([] @ [Enter (Fn_update_employee_pos ''E1'' ''P1'')])))) = 0"
    by code_simp
  then obtain es1 where s:
    "search_employee no_row_env example_config ''E1'' 0
       ([] @ [Enter (Fn_update_employee_pos ''E1'' ''P1'')]) = (Inr (), es1)"
    and c: "length (filter (\<lambda>ev. ev = Click ''#doSearch'') es1) = 1"
       "length (filter (\<lambda>ev. ev = Wait_for_selector (row_xpath ''E1'') 10000) es1) = 0"
    by (cases "search_employee no_row_env example_config ''E1'' 0
                 ([] @ [Enter (Fn_update_employee_pos ''E1'' ''P1'')])") simp
  have a: "\<forall>h'. env_act no_row_env h' (Wait_for_selector (row_xpath ''E1'') 10000)
                 = Some (PageError ''Timeout 10000ms exceeded.'')"
    by (simp add: no_row_env_def)
  have b: "\<forall>h'. env_act no_row_env h' (Wait_for_timeout 2000) = None
             \<and> env_act no_row_env h' (Click ''#doSearch'') = None
             \<and> env_act no_row_env h' (Wait_for_timeout 3000) = None
             \<and> env_act no_row_env h' (Screenshot (''debug_search_'' @ ''E1'' @ ''_2.png'')) = None"
    by (simp add: no_row_env_def)
  have n: "env_count no_row_env
           ([] @ Enter (Fn_update_employee_pos ''E1'' ''P1'') # es1 @ poll_events ''E1''
              @ [Screenshot (''debug_search_'' @ ''E1'' @ ''_2.png'')])
           (Count (Locator no_data_selector)) = Inr 0"
    by (simp add: no_row_env_def)
  from row_poll_bounded [OF s a b n] c show ?thesis
    by (simp add: poll_events_def)
qed



section \<open>Selecting the result row\<close>

lemma row_xpath_inject [simp]: "row_xpath a = row_xpath b \<longleftrightarrow> a = b"
  by (simp add: row_xpath_def)

lemma selected_rows_simps [simp]:
  "selected_rows tbl [] = []"
  "selected_rows tbl (ev # es) = clicked tbl ev @ selected_rows tbl es"
  "selected_rows tbl (es @ es') = selected_rows tbl es @ selected_rows tbl es'"
  by (simp_all add: selected_rows_def)






end
